theory Spec2Isabelle
  imports Complex_Main "HOL-Library.AList"
begin

section \<open>Constants of Atlas.js\<close>

text \<open>
  JavaScript numbers are modelled as mathematical reals, and an operation of the source
  as the exact real-number operation that its IEEE double operation rounds.  The one
  exception is the arithmetic of \<open>_getTileUrl\<close>, where the rounding decides which tile
  is named: there the sums are rounded to doubles, and \<open>Infinity\<close> and \<open>NaN\<close> are values.
\<close>

definition EARTH_RADIUS :: real where
  "EARTH_RADIUS = 6378137"

definition MAX_LATITUDE :: real where
  "MAX_LATITUDE = 85.05112878"

definition MIN_LATITUDE :: real where
  "MIN_LATITUDE = - 85.05112878"

definition TILE_SIZE :: real where
  "TILE_SIZE = 256"



definition RAD2DEG :: real where
  "RAD2DEG = 180 / pi"

definition DEG2RAD :: real where
  "DEG2RAD = pi / 180"

section \<open>Utility functions\<close>

text \<open>\<open>Math.atan2(y, x)\<close> on reals (no signed zero): the angle of the point \<open>(x, y)\<close>.\<close>

definition atan2 :: "real \<Rightarrow> real \<Rightarrow> real" where
  "atan2 y x =
     (if 0 < x then arctan (y / x)
      else if x < 0 then (if 0 \<le> y then arctan (y / x) + pi else arctan (y / x) - pi)
      else if 0 < y then pi / 2
      else if y < 0 then - (pi / 2)
      else 0)"

text \<open>The remainder operator \<open>%\<close> of JavaScript: the quotient is truncated towards zero.\<close>

definition js_trunc :: "real \<Rightarrow> int" where
  "js_trunc q = (if 0 \<le> q then \<lfloor>q\<rfloor> else \<lceil>q\<rceil>)"

definition js_rem :: "real \<Rightarrow> real \<Rightarrow> real" where
  "js_rem a b = a - b * of_int (js_trunc (a / b))"

definition normalizeAngle :: "real \<Rightarrow> real" where
  "normalizeAngle rad = atan2 (sin rad) (cos rad)"

definition shortestAngleDiff :: "real \<Rightarrow> real \<Rightarrow> real" where
  "shortestAngleDiff from to = normalizeAngle (to - from)"

definition wrapDeltaLon :: "real \<Rightarrow> real" where
  "wrapDeltaLon delta = js_rem (js_rem (delta + 180) 360 + 360) 360 - 180"

record point =
  px :: real
  py :: real

record latlng =
  lat :: real
  lon :: real

definition rot :: "real \<Rightarrow> real \<Rightarrow> real \<Rightarrow> point" where
  "rot x y ang =
     (let c = cos ang; s = sin ang
      in \<lparr>px = x * c - y * s, py = x * s + y * c\<rparr>)"

section \<open>Web Mercator projection\<close>

text \<open>The local \<open>sin\<close> of \<open>project\<close>: the sine of the clamped latitude.\<close>

definition project_sin :: "latlng \<Rightarrow> real" where
  "project_sin latlng =
     (let maxLat = MAX_LATITUDE;
          lt = max (min maxLat (lat latlng)) (- maxLat)
      in sin (lt * DEG2RAD))"

definition project :: "latlng \<Rightarrow> point" where
  "project latlng =
     (let d = EARTH_RADIUS; sn = project_sin latlng
      in \<lparr>px = d * lon latlng * DEG2RAD,
          py = d * ln ((1 + sn) / (1 - sn)) / 2\<rparr>)"

definition unproject :: "point \<Rightarrow> latlng" where
  "unproject p =
     (let d = EARTH_RADIUS
      in \<lparr>lat = (2 * arctan (exp (py p / d)) - pi / 2) * RAD2DEG,
          lon = (px p / d) * RAD2DEG\<rparr>)"

definition latLngToTile :: "latlng \<Rightarrow> real \<Rightarrow> point" where
  "latLngToTile latlng zoom =
     (let scale = 2 powr zoom; projected = project latlng
      in \<lparr>px = (px projected + pi * EARTH_RADIUS) / (2 * pi * EARTH_RADIUS) * scale,
          py = (pi * EARTH_RADIUS - py projected) / (2 * pi * EARTH_RADIUS) * scale\<rparr>)"

definition tileToLatLng :: "real \<Rightarrow> real \<Rightarrow> real \<Rightarrow> latlng" where
  "tileToLatLng x y zoom =
     (let scale = 2 powr zoom;
          projected = \<lparr>px = x / scale * 2 * pi * EARTH_RADIUS - pi * EARTH_RADIUS,
                       py = pi * EARTH_RADIUS - y / scale * 2 * pi * EARTH_RADIUS\<rparr>
      in unproject projected)"

section \<open>GISUtils\<close>

text \<open>The two \<open>while\<close> loops of \<open>wrapLongitude\<close>, one function each.\<close>

function wrap_down :: "real \<Rightarrow> real" where
  "wrap_down l = (if l > 180 then wrap_down (l - 360) else l)"
  by pat_completeness auto
termination
proof (relation "measure (\<lambda>l. nat \<lceil>(l - 180) / 360\<rceil>)")
  show "wf (measure (\<lambda>l::real. nat \<lceil>(l - 180) / 360\<rceil>))" by simp
next
  fix l :: real
  assume "180 < l"
  then have pos: "0 < \<lceil>(l - 180) / 360\<rceil>" by simp
  have "\<lceil>(l - 360 - 180) / 360\<rceil> = \<lceil>(l - 180) / 360 - 1\<rceil>"
    by (simp add: field_simps)
  also have "\<dots> = \<lceil>(l - 180) / 360\<rceil> - 1" by simp
  finally show "(l - 360, l) \<in> measure (\<lambda>l. nat \<lceil>(l - 180) / 360\<rceil>)"
    using pos by simp
qed

function wrap_up :: "real \<Rightarrow> real" where
  "wrap_up l = (if l < - 180 then wrap_up (l + 360) else l)"
  by pat_completeness auto
termination
proof (relation "measure (\<lambda>l. nat \<lceil>(- 180 - l) / 360\<rceil>)")
  show "wf (measure (\<lambda>l::real. nat \<lceil>(- 180 - l) / 360\<rceil>))" by simp
next
  fix l :: real
  assume "l < - 180"
  then have pos: "0 < \<lceil>(- 180 - l) / 360\<rceil>" by simp
  have "\<lceil>(- 180 - (l + 360)) / 360\<rceil> = \<lceil>(- 180 - l) / 360 - 1\<rceil>"
    by (simp add: field_simps)
  also have "\<dots> = \<lceil>(- 180 - l) / 360\<rceil> - 1" by simp
  finally show "(l + 360, l) \<in> measure (\<lambda>l. nat \<lceil>(- 180 - l) / 360\<rceil>)"
    using pos by simp
qed

declare wrap_down.simps [simp del]

declare wrap_up.simps [simp del]

definition wrapLongitude :: "real \<Rightarrow> real" where
  "wrapLongitude l = wrap_up (wrap_down l)"

definition clampLatitude :: "real \<Rightarrow> real" where
  "clampLatitude lt = max MIN_LATITUDE (min MAX_LATITUDE lt)"


section \<open>Strings and numbers\<close>





text \<open>
  A JavaScript number where the source can leave the finite doubles: a finite value,
  \<open>Infinity\<close>, \<open>-Infinity\<close> or \<open>NaN\<close>.
\<close>

datatype jsnum = Fin real | PosInf | NegInf | NaN

text \<open>The nearest integer, a tie going to the even one.\<close>

definition round_even :: "real \<Rightarrow> int" where
  "round_even q =
     (let f = \<lfloor>q\<rfloor>; d = q - of_int f
      in if d < 1 / 2 then f else if 1 / 2 < d then f + 1 else if even f then f else f + 1)"

text \<open>
  Rounding a real to the nearest double, ties to even: 53 significant bits, exponents
  from \<open>-1022\<close> (below, the spacing of the subnormal numbers stays \<open>2^-1074\<close>) to \<open>1023\<close>
  (above, the result is infinite).
\<close>

definition double_exp :: "real \<Rightarrow> int" where
  "double_exp x = max (- 1022) \<lfloor>log 2 \<bar>x\<bar>\<rfloor>"

definition to_double :: "real \<Rightarrow> jsnum" where
  "to_double x =
     (if x = 0 then Fin 0
      else
        (let u = 2 powr (of_int (double_exp x) - 52);
             r = of_int (round_even (x / u)) * u
         in if 2 powr 1024 \<le> \<bar>r\<bar> then (if 0 < x then PosInf else NegInf) else Fin r))"

text \<open>\<open>Math.pow(2, z)\<close> for an integer \<open>z\<close>.\<close>

definition pow2 :: "int \<Rightarrow> jsnum" where
  "pow2 z = to_double (2 powr of_int z)"

text \<open>The operators \<open>+\<close>, \<open>-\<close> and \<open>%\<close>; the remainder of two doubles is a double.\<close>

fun js_add :: "jsnum \<Rightarrow> jsnum \<Rightarrow> jsnum" where
  "js_add (Fin a) (Fin b) = to_double (a + b)"
| "js_add NaN b = NaN"
| "js_add a NaN = NaN"
| "js_add PosInf NegInf = NaN"
| "js_add NegInf PosInf = NaN"
| "js_add PosInf b = PosInf"
| "js_add NegInf b = NegInf"
| "js_add (Fin a) b = b"



fun js_mod :: "jsnum \<Rightarrow> jsnum \<Rightarrow> jsnum" where
  "js_mod (Fin a) (Fin b) = (if b = 0 then NaN else Fin (js_rem a b))"
| "js_mod (Fin a) PosInf = Fin a"
| "js_mod (Fin a) NegInf = Fin a"
| "js_mod a b = NaN"

text \<open>\<open>Math.floor\<close>, \<open>Math.min\<close> and \<open>Math.max\<close>.\<close>

fun js_floor :: "jsnum \<Rightarrow> jsnum" where
  "js_floor (Fin a) = Fin (of_int \<lfloor>a\<rfloor>)"
| "js_floor a = a"




text \<open>\<open>s.includes(pat)\<close>: \<open>pat\<close> occurs in \<open>s\<close>.\<close>

fun str_includes :: "string \<Rightarrow> string \<Rightarrow> bool" where
  "str_includes [] pat = (pat = [])"
| "str_includes (c # cs) pat = (take (length pat) (c # cs) = pat \<or> str_includes cs pat)"

text \<open>\<open>s.replace(pat, rep)\<close> with a string pattern: only the first occurrence is replaced.\<close>

fun replace_first :: "string \<Rightarrow> string \<Rightarrow> string \<Rightarrow> string" where
  "replace_first [] pat rep = (if pat = [] then rep else [])"
| "replace_first (c # cs) pat rep =
     (if take (length pat) (c # cs) = pat then rep @ drop (length pat) (c # cs)
      else c # replace_first cs pat rep)"

section \<open>TileLayer\<close>

datatype retina_mode = RetinaTrue | RetinaAuto | RetinaOff

text \<open>\<open>CONFIG.retina\<close>, \<open>CONFIG.retinaSuffix\<close> and \<open>window.devicePixelRatio\<close>.\<close>

record env =
  retina :: retina_mode
  retinaSuffix :: string
  devicePixelRatio :: real

definition CONFIG :: "real \<Rightarrow> env" where
  "CONFIG dpr = \<lparr>retina = RetinaAuto, retinaSuffix = ''@2x'', devicePixelRatio = dpr\<rparr>"

text \<open>
  A tile record.  The image and the abort controller are created together, one pair for
  each load, and are named by the same number.
\<close>

record tile =
  img :: nat
  loaded :: bool
  loadedAt :: int
  lastUsed :: int

datatype tile_error = Timeout | LoadError

datatype tile_event = TileLoad string string | TileError string string tile_error

datatype outcome = Resolved | Rejected tile_error

text \<open>
  What one call of \<open>_loadTile\<close> leaves behind: the closure variables \<open>key\<close> and \<open>url\<close>,
  the current \<open>img.src\<close>, whether the image is still being fetched, whether the
  controller was aborted, whether the timeout is armed, and how the returned promise
  was settled.
\<close>

record load =
  l_key :: string
  l_url :: string
  l_src :: string
  l_inflight :: bool
  l_aborted :: bool
  l_timer :: bool
  l_outcome :: "outcome option"

record tile_layer =
  urlTemplate :: string
  minZoom :: real
  maxZoom :: real
  supportsRetina :: bool
  maxCacheSize :: nat
  tileCache :: "(string \<times> tile) list"
  loadingTiles :: "string set"
  loadingControllers :: "(string \<times> nat) list"
  retinaAvailable :: bool
  loads :: "load list"
  fired :: "tile_event list"

definition TileLayer_new :: "string \<Rightarrow> real \<Rightarrow> real \<Rightarrow> bool \<Rightarrow> nat \<Rightarrow> tile_layer" where
  "TileLayer_new tmpl mn mx sr mcs =
     \<lparr>urlTemplate = tmpl, minZoom = mn, maxZoom = mx, supportsRetina = sr,
      maxCacheSize = mcs, tileCache = [], loadingTiles = {}, loadingControllers = [],
      retinaAvailable = True, loads = [], fired = []\<rparr>"


text \<open>
  The two indices of \<open>_getTileUrl\<close>, for tile coordinates \<open>x\<close> and \<open>y\<close> that are finite
  doubles and an integer zoom \<open>z\<close>.
\<close>

definition tile_intX :: "real \<Rightarrow> int \<Rightarrow> jsnum" where
  "tile_intX x z =
     (let scale = pow2 z;
          wrappedX = js_mod (js_add (js_mod (Fin x) scale) scale) scale
      in js_floor wrappedX)"



text \<open>The promise returned by \<open>_loadTile\<close>: resolved at once, or settled later by load \<open>n\<close>.\<close>

datatype promise = Fulfilled tile | Awaiting nat

definition loadTile :: "tile_layer \<Rightarrow> string \<Rightarrow> string \<Rightarrow> int \<Rightarrow> promise \<times> tile_layer" where
  "loadTile L key url now =
     (case map_of (tileCache L) key of
        Some t \<Rightarrow> (Fulfilled t, L)
      | None \<Rightarrow>
          (let n = length (loads L);
               t = \<lparr>img = n, loaded = False, loadedAt = now, lastUsed = now\<rparr>
           in (Awaiting n,
               L\<lparr>loadingControllers := AList.update key n (loadingControllers L),
                 tileCache := AList.update key t (tileCache L),
                 loadingTiles := insert key (loadingTiles L),
                 loads := loads L @
                   [\<lparr>l_key = key, l_url = url, l_src = url, l_inflight = True,
                     l_aborted = False, l_timer = True, l_outcome = None\<rparr>]\<rparr>)))"

text \<open>
  The closure variable \<open>tile\<close> of load \<open>n\<close> is the record whose image is \<open>n\<close>; writing
  to it changes the cache only while that record is still the one stored.
\<close>

definition mark_loaded :: "nat \<Rightarrow> int \<Rightarrow> (string \<times> tile) list \<Rightarrow> (string \<times> tile) list" where
  "mark_loaded n now cache =
     map (\<lambda>(k, t). if img t = n then (k, t\<lparr>loaded := True, loadedAt := now\<rparr>) else (k, t)) cache"

text \<open>\<open>img.onload\<close> of load \<open>n\<close>.\<close>

definition img_onload :: "tile_layer \<Rightarrow> nat \<Rightarrow> int \<Rightarrow> tile_layer" where
  "img_onload L n now =
     (if n < length (loads L) \<and> l_inflight (loads L ! n) then
        (let ld = loads L ! n
         in L\<lparr>tileCache := mark_loaded n now (tileCache L),
              loadingTiles := loadingTiles L - {l_key ld},
              loadingControllers := AList.delete (l_key ld) (loadingControllers L),
              fired := fired L @ [TileLoad (l_key ld) (l_url ld)],
              loads := (loads L)[n := ld\<lparr>l_inflight := False, l_timer := False,
                l_outcome := (case l_outcome ld of None \<Rightarrow> Some Resolved | Some r \<Rightarrow> Some r)\<rparr>]\<rparr>)
      else L)"

text \<open>\<open>img.onerror\<close> of load \<open>n\<close>.\<close>

definition img_onerror :: "env \<Rightarrow> tile_layer \<Rightarrow> nat \<Rightarrow> tile_layer" where
  "img_onerror e L n =
     (if n < length (loads L) \<and> l_inflight (loads L ! n) then
        (let ld = loads L ! n
         in if l_aborted ld then
              L\<lparr>loads := (loads L)[n := ld\<lparr>l_inflight := False, l_timer := False\<rparr>]\<rparr>
            else if supportsRetina L \<and> str_includes (l_url ld) (retinaSuffix e) then
              L\<lparr>retinaAvailable := False,
                loads := (loads L)[n := ld\<lparr>l_timer := False,
                  l_src := replace_first (l_url ld) (retinaSuffix e) [], l_inflight := True\<rparr>]\<rparr>
            else
              L\<lparr>loadingTiles := loadingTiles L - {l_key ld},
                loadingControllers := AList.delete (l_key ld) (loadingControllers L),
                fired := fired L @ [TileError (l_key ld) (l_url ld) LoadError],
                loads := (loads L)[n := ld\<lparr>l_inflight := False, l_timer := False,
                  l_outcome := (case l_outcome ld of None \<Rightarrow> Some (Rejected LoadError)
                                | Some r \<Rightarrow> Some r)\<rparr>]\<rparr>)
      else L)"

text \<open>
  The timeout callback of load \<open>n\<close>.  Aborting the controller does not stop the image
  element: only \<open>onerror\<close> looks at the signal.
\<close>

definition load_timeout :: "tile_layer \<Rightarrow> nat \<Rightarrow> tile_layer" where
  "load_timeout L n =
     (if n < length (loads L) \<and> l_timer (loads L ! n) then
        (let ld = loads L ! n
         in if l_key ld \<in> loadingTiles L then
              L\<lparr>loadingTiles := loadingTiles L - {l_key ld},
                loadingControllers := AList.delete (l_key ld) (loadingControllers L),
                tileCache := AList.delete (l_key ld) (tileCache L),
                fired := fired L @ [TileError (l_key ld) (l_url ld) Timeout],
                loads := (loads L)[n := ld\<lparr>l_aborted := True, l_timer := False,
                  l_outcome := (case l_outcome ld of None \<Rightarrow> Some (Rejected Timeout)
                                | Some r \<Rightarrow> Some r)\<rparr>]\<rparr>
            else L\<lparr>loads := (loads L)[n := ld\<lparr>l_timer := False\<rparr>]\<rparr>)
      else L)"

definition performEviction :: "tile_layer \<Rightarrow> tile_layer" where
  "performEviction L =
     (if length (tileCache L) \<le> maxCacheSize L then L
      else
        (let entries = sort_key (\<lambda>a. lastUsed (snd a)) (tileCache L);
             removeCount = length (tileCache L) - maxCacheSize L
         in L\<lparr>tileCache :=
               fold (\<lambda>i c. AList.delete (fst (entries ! i)) c) [0..<removeCount] (tileCache L)\<rparr>))"

text \<open>The image loads for a key that are being fetched.\<close>

definition inflight_loads :: "tile_layer \<Rightarrow> string \<Rightarrow> load list" where
  "inflight_loads L key = filter (\<lambda>ld. l_key ld = key \<and> l_inflight ld) (loads L)"


section \<open>Animation frames\<close>

text \<open>The variables the closure \<open>step\<close> of \<open>_startInertia\<close> keeps between frames.\<close>

record inertia =
  i_vx :: real
  i_vy :: real
  i_lastT :: real

text \<open>The constants the closure \<open>step\<close> of \<open>flyTo\<close> captures.\<close>

record fly_job =
  sC :: latlng
  dLon :: real
  dLat :: real
  sZ :: real
  eZ :: real
  sB :: real
  dB :: real
  startT :: real
  duration :: real
  easing :: "real \<Rightarrow> real"

text \<open>
  The callbacks handed to \<open>requestAnimationFrame\<close>: the redraw that \<open>scheduleRender\<close>
  requests, and the \<open>step\<close> closures of the inertia and of \<open>flyTo\<close>, each with the values
  its variables hold when it is requested.
\<close>

datatype raf_callback = DrawFrame | InertiaFrame inertia | FlyFrame fly_job

section \<open>Atlas: the viewport\<close>

text \<open>
  The viewport, the names of the events fired on the map in the order of the calls of
  \<open>fire\<close>, and the animation frame callbacks that are requested and not yet run,
  each with its handle, in the order of the requests.
\<close>

record atlas =
  canvas_width :: real
  canvas_height :: real
  dpr :: real
  center :: latlng
  zoom :: real
  bearing :: real
  baseLayer :: "tile_layer option"
  events :: "string list"
  renderScheduled :: bool
  rafQueue :: "(nat \<times> raf_callback) list"
  rafHandle :: nat
  inertiaRAF :: "nat option"
  zoomAnim :: "nat option"
  flyAnim :: "nat option"

definition fire :: "atlas \<Rightarrow> string \<Rightarrow> atlas" where
  "fire m type = m\<lparr>events := events m @ [type]\<rparr>"

text \<open>Handles are counted from 1, so that a handle is never a false value.\<close>

definition requestAnimationFrame :: "atlas \<Rightarrow> raf_callback \<Rightarrow> nat \<times> atlas" where
  "requestAnimationFrame m cb =
     (let h = rafHandle m + 1
      in (h, m\<lparr>rafHandle := h, rafQueue := rafQueue m @ [(h, cb)]\<rparr>))"

definition cancelAnimationFrame :: "atlas \<Rightarrow> nat \<Rightarrow> atlas" where
  "cancelAnimationFrame m h = m\<lparr>rafQueue := filter (\<lambda>e. fst e \<noteq> h) (rafQueue m)\<rparr>"

definition scheduleRender :: "atlas \<Rightarrow> atlas" where
  "scheduleRender m =
     (if renderScheduled m then m
      else snd (requestAnimationFrame (m\<lparr>renderScheduled := True\<rparr>) DrawFrame))"

definition render :: "atlas \<Rightarrow> atlas" where
  "render m = scheduleRender m"


text \<open>
  The constructor, as far as it writes the viewport: \<open>defaultCenter\<close> and \<open>defaultZoom\<close>
  come from \<open>CONFIG\<close> after the caller's options were merged into it, the canvas size
  and the pixel ratio from \<open>resize\<close>, which renders and fires \<open>resize\<close>; the constructor
  ends with \<open>render\<close> and \<open>load\<close>.
\<close>

definition Atlas_new :: "latlng \<Rightarrow> real \<Rightarrow> real \<Rightarrow> real \<Rightarrow> real \<Rightarrow> atlas" where
  "Atlas_new defaultCenter defaultZoom cw ch r =
     (let m0 = \<lparr>canvas_width = cw, canvas_height = ch, dpr = r,
                center = \<lparr>lat = clampLatitude (lat defaultCenter),
                          lon = wrapLongitude (lon defaultCenter)\<rparr>,
                zoom = defaultZoom, bearing = 0, baseLayer = None, events = [],
                renderScheduled = False, rafQueue = [], rafHandle = 0,
                inertiaRAF = None, zoomAnim = None, flyAnim = None\<rparr>;
          m1 = fire (render m0) ''resize''
      in fire (render m1) ''load'')"

definition layerMinZoom :: "atlas \<Rightarrow> real" where
  "layerMinZoom m = (case baseLayer m of Some l \<Rightarrow> minZoom l | None \<Rightarrow> 0)"

definition layerMaxZoom :: "atlas \<Rightarrow> real" where
  "layerMaxZoom m = (case baseLayer m of Some l \<Rightarrow> maxZoom l | None \<Rightarrow> 18)"

definition setZoom :: "atlas \<Rightarrow> real \<Rightarrow> atlas" where
  "setZoom m z =
     (let nz = max (layerMinZoom m) (min (layerMaxZoom m) z)
      in if nz = zoom m then m else fire (render (m\<lparr>zoom := nz\<rparr>)) ''zoom'')"

definition setBearing :: "atlas \<Rightarrow> real \<Rightarrow> atlas" where
  "setBearing m rad =
     (let nr = normalizeAngle rad
      in if \<bar>nr - bearing m\<bar> < 1 / 10 ^ 6 then m
         else fire (render (m\<lparr>bearing := nr\<rparr>)) ''rotate'')"

text \<open>\<open>if (handle) cancelAnimationFrame(handle)\<close> for a handle that may be \<open>null\<close>.\<close>

definition cancel_if_set :: "atlas \<Rightarrow> nat option \<Rightarrow> atlas" where
  "cancel_if_set m h =
     (case h of None \<Rightarrow> m | Some n \<Rightarrow> if n = 0 then m else cancelAnimationFrame m n)"

definition stopInertia :: "atlas \<Rightarrow> atlas" where
  "stopInertia m = (cancel_if_set m (inertiaRAF m))\<lparr>inertiaRAF := None\<rparr>"

definition stopAnimations :: "atlas \<Rightarrow> atlas" where
  "stopAnimations m =
     (let m1 = stopInertia m;
          m2 = (cancel_if_set m1 (zoomAnim m1))\<lparr>zoomAnim := None\<rparr>
      in (cancel_if_set m2 (flyAnim m2))\<lparr>flyAnim := None\<rparr>)"

text \<open>\<open>screenToLatLon\<close> with all five arguments given.\<close>

definition screenToLatLon5 :: "atlas \<Rightarrow> real \<Rightarrow> real \<Rightarrow> real \<Rightarrow> real \<Rightarrow> latlng \<Rightarrow> latlng" where
  "screenToLatLon5 m ax ay zm br ctr =
     (let w = canvas_width m / dpr m;
          h = canvas_height m / dpr m;
          zInt = of_int \<lfloor>zm\<rfloor>;
          ts = TILE_SIZE * 2 powr (zm - zInt);
          ct = latLngToTile ctr zInt;
          anchorVec = \<lparr>px = ax - w / 2, py = ay - h / 2\<rparr>;
          v = rot (px anchorVec / ts) (py anchorVec / ts) (- br);
          tpt = \<lparr>px = px ct + px v, py = py ct + py v\<rparr>;
          ll = tileToLatLng (px tpt) (py tpt) zInt
      in \<lparr>lat = clampLatitude (lat ll), lon = wrapLongitude (lon ll)\<rparr>)"


definition applyZoomRotateAbout ::
  "atlas \<Rightarrow> real \<Rightarrow> real \<Rightarrow> real \<Rightarrow> real \<Rightarrow> latlng option \<Rightarrow> atlas" where
  "applyZoomRotateAbout m ax ay newZoom0 newBearing anchorLL =
     (let newZoom = max (layerMinZoom m) (min (layerMaxZoom m) newZoom0);
          w = canvas_width m / dpr m;
          h = canvas_height m / dpr m;
          anchorVec = \<lparr>px = ax - w / 2, py = ay - h / 2\<rparr>;
          currAnchorLL = (case anchorLL of Some a \<Rightarrow> a
                          | None \<Rightarrow> screenToLatLon5 m ax ay (zoom m) (bearing m) (center m));
          zInt = of_int \<lfloor>newZoom\<rfloor>;
          ts = TILE_SIZE * 2 powr (newZoom - zInt);
          Ptile = latLngToTile currAnchorLL zInt;
          v = rot (px anchorVec / ts) (py anchorVec / ts) (- newBearing);
          ctNew = \<lparr>px = px Ptile - px v, py = py Ptile - py v\<rparr>;
          newCenter = tileToLatLng (px ctNew) (py ctNew) zInt
      in m\<lparr>center := \<lparr>lat = clampLatitude (lat newCenter),
                         lon = wrapLongitude (lon newCenter)\<rparr>,
           zoom := newZoom,
           bearing := normalizeAngle newBearing\<rparr>)"

section \<open>DragPanHandler\<close>

record drag_start =
  ds_x :: real
  ds_y :: real
  ds_center :: latlng

text \<open>The viewport write of \<open>_onMouseMove\<close> and \<open>_onTouchMove\<close> while dragging.\<close>

definition dragMove :: "atlas \<Rightarrow> drag_start \<Rightarrow> real \<Rightarrow> real \<Rightarrow> atlas" where
  "dragMove m ds clientX clientY =
     (let dx = clientX - ds_x ds;
          dy = clientY - ds_y ds;
          w = canvas_width m / dpr m;
          h = canvas_height m / dpr m
      in render (m\<lparr>center := screenToLatLon5 m (w / 2 - dx) (h / 2 - dy) (zoom m) (bearing m)
                                (ds_center ds)\<rparr>))"

definition hypot :: "real \<Rightarrow> real \<Rightarrow> real" where
  "hypot a b = sqrt (a * a + b * b)"



section \<open>flyTo\<close>

definition easeInOutCubic :: "real \<Rightarrow> real" where
  "easeInOutCubic t = (if t < 0.5 then 4 * t * t * t else 1 - (- 2 * t + 2) ^ 3 / 2)"

record fly_options =
  f_center :: "latlng option"
  f_zoom :: "real option"
  f_bearing :: "real option"
  f_duration :: "real option"
  f_easing :: "(real \<Rightarrow> real) option"

text \<open>\<open>v || d\<close> for an optional number: a missing value and \<open>0\<close> both give \<open>d\<close>.\<close>

definition num_or :: "real option \<Rightarrow> real \<Rightarrow> real" where
  "num_or v d = (case v of None \<Rightarrow> d | Some x \<Rightarrow> if x = 0 then d else x)"

text \<open>\<open>flyTo\<close> at the clock reading \<open>now\<close>: the job and its first frame request.\<close>

definition flyTo :: "atlas \<Rightarrow> fly_options \<Rightarrow> real \<Rightarrow> atlas \<times> fly_job" where
  "flyTo m opts now =
     (let ctr = (case f_center opts of Some c \<Rightarrow> c | None \<Rightarrow> center m);
          zm = num_or (f_zoom opts) (zoom m);
          br = num_or (f_bearing opts) (bearing m);
          dur = num_or (f_duration opts) 800;
          es = (case f_easing opts of Some f \<Rightarrow> f | None \<Rightarrow> easeInOutCubic);
          targetZoom = max (layerMinZoom m) (min (layerMaxZoom m) zm);
          m0 = stopAnimations m;
          eC = \<lparr>lat = lat ctr, lon = wrapLongitude (lon ctr)\<rparr>;
          j = \<lparr>sC = center m0,
               dLon = wrapDeltaLon (lon eC - lon (center m0)),
               dLat = lat eC - lat (center m0),
               sZ = zoom m0, eZ = targetZoom,
               sB = bearing m0, dB = shortestAngleDiff (bearing m0) br,
               startT = now, duration = dur, easing = es\<rparr>;
          (h, m1) = requestAnimationFrame m0 (FlyFrame j)
      in (fire (m1\<lparr>flyAnim := Some h\<rparr>) ''movestart'', j))"

text \<open>The time fraction \<open>t\<close> and the eased progress \<open>p\<close> of a frame at the clock reading \<open>now\<close>.\<close>

definition fly_t :: "fly_job \<Rightarrow> real \<Rightarrow> real" where
  "fly_t j now = (now - startT j) / max 1 (duration j)"

definition fly_p :: "fly_job \<Rightarrow> real \<Rightarrow> real" where
  "fly_p j now = (let t = fly_t j now in if t \<ge> 1 then 1 else easing j (max 0 (min 1 t)))"

text \<open>
  One run of the closure \<open>step\<close> of \<open>flyTo\<close>; the flag tells whether a further frame is
  requested.
\<close>

definition flyTo_step :: "atlas \<Rightarrow> fly_job \<Rightarrow> real \<Rightarrow> atlas \<times> bool" where
  "flyTo_step m j now =
     (let t = fly_t j now;
          p = fly_p j now;
          currentLon = lon (sC j) + dLon j * p;
          m1 = render (m\<lparr>center := \<lparr>lat = clampLatitude (lat (sC j) + dLat j * p),
                                    lon = (if t \<ge> 1 then wrapLongitude currentLon
                                           else currentLon)\<rparr>,
                         zoom := sZ j + (eZ j - sZ j) * p,
                         bearing := normalizeAngle (sB j + dB j * p)\<rparr>)
      in if t < 1 then
           (let (h, m2) = requestAnimationFrame m1 (FlyFrame j)
            in (m2\<lparr>flyAnim := Some h\<rparr>, True))
         else (fire (m1\<lparr>flyAnim := None\<rparr>) ''moveend'', False))"

section \<open>The frames of the browser\<close>






section \<open>What rendering and firing leave alone\<close>

lemma fire_fields [simp]:
  "canvas_width (fire m t) = canvas_width m" "canvas_height (fire m t) = canvas_height m"
  "dpr (fire m t) = dpr m" "center (fire m t) = center m" "zoom (fire m t) = zoom m"
  "bearing (fire m t) = bearing m" "baseLayer (fire m t) = baseLayer m"
  "events (fire m t) = events m @ [t]" "renderScheduled (fire m t) = renderScheduled m"
  "rafQueue (fire m t) = rafQueue m" "rafHandle (fire m t) = rafHandle m"
  "inertiaRAF (fire m t) = inertiaRAF m" "zoomAnim (fire m t) = zoomAnim m"
  "flyAnim (fire m t) = flyAnim m"
  by (simp_all add: fire_def)

lemma requestAnimationFrame_fields [simp]:
  "canvas_width (snd (requestAnimationFrame m cb)) = canvas_width m"
  "canvas_height (snd (requestAnimationFrame m cb)) = canvas_height m"
  "dpr (snd (requestAnimationFrame m cb)) = dpr m"
  "center (snd (requestAnimationFrame m cb)) = center m"
  "zoom (snd (requestAnimationFrame m cb)) = zoom m"
  "bearing (snd (requestAnimationFrame m cb)) = bearing m"
  "baseLayer (snd (requestAnimationFrame m cb)) = baseLayer m"
  "events (snd (requestAnimationFrame m cb)) = events m"
  "renderScheduled (snd (requestAnimationFrame m cb)) = renderScheduled m"
  "rafQueue (snd (requestAnimationFrame m cb)) = rafQueue m @ [(rafHandle m + 1, cb)]"
  "rafHandle (snd (requestAnimationFrame m cb)) = rafHandle m + 1"
  "inertiaRAF (snd (requestAnimationFrame m cb)) = inertiaRAF m"
  "zoomAnim (snd (requestAnimationFrame m cb)) = zoomAnim m"
  "flyAnim (snd (requestAnimationFrame m cb)) = flyAnim m"
  "fst (requestAnimationFrame m cb) = rafHandle m + 1"
  by (simp_all add: requestAnimationFrame_def Let_def)

lemma cancelAnimationFrame_fields [simp]:
  "canvas_width (cancelAnimationFrame m h) = canvas_width m"
  "canvas_height (cancelAnimationFrame m h) = canvas_height m"
  "dpr (cancelAnimationFrame m h) = dpr m"
  "center (cancelAnimationFrame m h) = center m"
  "zoom (cancelAnimationFrame m h) = zoom m"
  "bearing (cancelAnimationFrame m h) = bearing m"
  "baseLayer (cancelAnimationFrame m h) = baseLayer m"
  "events (cancelAnimationFrame m h) = events m"
  "renderScheduled (cancelAnimationFrame m h) = renderScheduled m"
  "rafQueue (cancelAnimationFrame m h) = filter (\<lambda>e. fst e \<noteq> h) (rafQueue m)"
  "rafHandle (cancelAnimationFrame m h) = rafHandle m"
  "inertiaRAF (cancelAnimationFrame m h) = inertiaRAF m"
  "zoomAnim (cancelAnimationFrame m h) = zoomAnim m"
  "flyAnim (cancelAnimationFrame m h) = flyAnim m"
  by (simp_all add: cancelAnimationFrame_def)

lemma render_fields [simp]:
  "canvas_width (render m) = canvas_width m" "canvas_height (render m) = canvas_height m"
  "dpr (render m) = dpr m" "center (render m) = center m" "zoom (render m) = zoom m"
  "bearing (render m) = bearing m" "baseLayer (render m) = baseLayer m"
  "events (render m) = events m" "renderScheduled (render m) = True"
  "rafQueue (render m)
     = (if renderScheduled m then rafQueue m else rafQueue m @ [(rafHandle m + 1, DrawFrame)])"
  "rafHandle (render m) = (if renderScheduled m then rafHandle m else rafHandle m + 1)"
  "inertiaRAF (render m) = inertiaRAF m" "zoomAnim (render m) = zoomAnim m"
  "flyAnim (render m) = flyAnim m"
  by (simp_all add: render_def scheduleRender_def)

lemma cancel_if_set_fields [simp]:
  "canvas_width (cancel_if_set m h) = canvas_width m"
  "canvas_height (cancel_if_set m h) = canvas_height m"
  "dpr (cancel_if_set m h) = dpr m"
  "center (cancel_if_set m h) = center m"
  "zoom (cancel_if_set m h) = zoom m"
  "bearing (cancel_if_set m h) = bearing m"
  "baseLayer (cancel_if_set m h) = baseLayer m"
  "events (cancel_if_set m h) = events m"
  "renderScheduled (cancel_if_set m h) = renderScheduled m"
  "rafHandle (cancel_if_set m h) = rafHandle m"
  "inertiaRAF (cancel_if_set m h) = inertiaRAF m"
  "zoomAnim (cancel_if_set m h) = zoomAnim m"
  "flyAnim (cancel_if_set m h) = flyAnim m"
  by (simp_all add: cancel_if_set_def split: option.splits)

lemma stopAnimations_fields [simp]:
  "canvas_width (stopAnimations m) = canvas_width m"
  "canvas_height (stopAnimations m) = canvas_height m"
  "dpr (stopAnimations m) = dpr m"
  "center (stopAnimations m) = center m"
  "zoom (stopAnimations m) = zoom m"
  "bearing (stopAnimations m) = bearing m"
  "baseLayer (stopAnimations m) = baseLayer m"
  "events (stopAnimations m) = events m"
  "renderScheduled (stopAnimations m) = renderScheduled m"
  "rafHandle (stopAnimations m) = rafHandle m"
  "inertiaRAF (stopAnimations m) = None"
  "zoomAnim (stopAnimations m) = None"
  "flyAnim (stopAnimations m) = None"
  by (simp_all add: stopAnimations_def stopInertia_def Let_def)

lemma layer_zoom_fields [simp]:
  "layerMinZoom (fire m t) = layerMinZoom m" "layerMaxZoom (fire m t) = layerMaxZoom m"
  "layerMinZoom (render m) = layerMinZoom m" "layerMaxZoom (render m) = layerMaxZoom m"
  "layerMinZoom (stopAnimations m) = layerMinZoom m"
  "layerMaxZoom (stopAnimations m) = layerMaxZoom m"
  "layerMinZoom (snd (requestAnimationFrame m cb)) = layerMinZoom m"
  "layerMaxZoom (snd (requestAnimationFrame m cb)) = layerMaxZoom m"
  by (simp_all add: layerMinZoom_def layerMaxZoom_def)

text \<open>\<open>screenToLatLon\<close> reads the canvas size, the pixel ratio, and the viewport.\<close>

lemma screenToLatLon5_cong:
  assumes "canvas_width m' = canvas_width m" "canvas_height m' = canvas_height m"
    and "dpr m' = dpr m"
  shows "screenToLatLon5 m' ax ay zm br ctr = screenToLatLon5 m ax ay zm br ctr"
  by (simp add: screenToLatLon5_def assms)



section \<open>Projection: the round trip\<close>

lemma gd_merc:
  fixes phi :: real
  assumes "- (pi / 2) < phi" "phi < pi / 2"
  shows "2 * arctan (exp (ln ((1 + sin phi) / (1 - sin phi)) / 2)) - pi / 2 = phi"
proof -
  let ?th = "phi / 2 + pi / 4"
  have th: "0 < ?th" "?th < pi / 2" using assms by simp_all
  have c: "0 < cos phi" using assms by (simp add: cos_gt_zero_pi)
  have s1: "sin phi < 1"
  proof -
    have "sin phi \<noteq> 1"
    proof
      assume "sin phi = 1"
      then have "(cos phi)\<^sup>2 = 0" using sin_cos_squared_add[of phi] by simp
      then show False using c by simp
    qed
    then show ?thesis using sin_le_one[of phi] by linarith
  qed
  have s2: "- 1 < sin phi"
  proof -
    have "sin phi \<noteq> - 1"
    proof
      assume "sin phi = - 1"
      then have "(cos phi)\<^sup>2 = 0" using sin_cos_squared_add[of phi] by simp
      then show False using c by simp
    qed
    then show ?thesis using sin_ge_minus_one[of phi] by linarith
  qed
  have q: "0 < (1 + sin phi) / (1 - sin phi)" using s1 s2 by simp
  have ct: "0 < cos ?th" using th by (simp add: cos_gt_zero_pi)
  have st: "0 < sin ?th" using th by (intro sin_gt_zero) simp_all
  have tpos: "0 < tan ?th" using ct st by (simp add: tan_def)
  have c2: "cos (2 * ?th) = - sin phi"
  proof -
    have "2 * ?th = phi + pi / 2" by simp
    then show ?thesis by (simp add: cos_add)
  qed
  have sq_s: "(sin ?th)\<^sup>2 = (1 + sin phi) / 2"
    using cos_double_sin[of ?th] c2 by (simp add: field_simps)
  have sq_c: "(cos ?th)\<^sup>2 = (1 - sin phi) / 2"
    using cos_double_cos[of ?th] c2 by (simp add: field_simps)
  have "(tan ?th)\<^sup>2 = (sin ?th)\<^sup>2 / (cos ?th)\<^sup>2"
    by (simp add: tan_def power_divide)
  also have "\<dots> = ((1 + sin phi) / 2) / ((1 - sin phi) / 2)"
    by (simp only: sq_s sq_c)
  also have "\<dots> = (1 + sin phi) / (1 - sin phi)"
    using s1 by (simp add: field_simps)
  finally have tsq: "(tan ?th)\<^sup>2 = (1 + sin phi) / (1 - sin phi)" .
  have "(exp (ln ((1 + sin phi) / (1 - sin phi)) / 2))\<^sup>2 = exp (ln ((1 + sin phi) / (1 - sin phi)))"
    by (simp add: exp_double[symmetric])
  also have "\<dots> = (1 + sin phi) / (1 - sin phi)" using q by simp
  finally have esq: "(exp (ln ((1 + sin phi) / (1 - sin phi)) / 2))\<^sup>2 = (tan ?th)\<^sup>2"
    using tsq by simp
  have "exp (ln ((1 + sin phi) / (1 - sin phi)) / 2) = tan ?th"
    using esq tpos by (simp add: power2_eq_iff_nonneg less_imp_le)
  then have "arctan (exp (ln ((1 + sin phi) / (1 - sin phi)) / 2)) = ?th"
    using th by (simp add: arctan_tan)
  then show ?thesis by simp
qed


lemma max_lat_rad: "MAX_LATITUDE * DEG2RAD < pi / 2"
proof -
  have "MAX_LATITUDE * DEG2RAD = (85.05112878 / 180) * pi"
    by (simp add: MAX_LATITUDE_def DEG2RAD_def)
  also have "\<dots> < (1 / 2) * pi"
    by (rule mult_strict_right_mono) (simp_all)
  finally show ?thesis by simp
qed

lemma clamped_rad:
  assumes "\<bar>l\<bar> \<le> MAX_LATITUDE"
  shows "- (pi / 2) < l * DEG2RAD" "l * DEG2RAD < pi / 2"
proof -
  have d: "0 < DEG2RAD" by (simp add: DEG2RAD_def)
  have "l * DEG2RAD \<le> MAX_LATITUDE * DEG2RAD"
    using assms d by (intro mult_right_mono) auto
  then show "l * DEG2RAD < pi / 2" using max_lat_rad by linarith
  have "- MAX_LATITUDE * DEG2RAD \<le> l * DEG2RAD"
    using assms d by (intro mult_right_mono) auto
  then show "- (pi / 2) < l * DEG2RAD" using max_lat_rad by simp
qed

lemma project_clamp_abs:
  "\<bar>max (min MAX_LATITUDE l) (- MAX_LATITUDE)\<bar> \<le> MAX_LATITUDE"
  by (simp add: MAX_LATITUDE_def)

lemma sin_open_interval:
  fixes phi :: real
  assumes "- (pi / 2) < phi" "phi < pi / 2"
  shows "- 1 < sin phi" "sin phi < 1"
proof -
  have c: "0 < cos phi" using assms by (simp add: cos_gt_zero_pi)
  have "sin phi \<noteq> 1"
  proof
    assume "sin phi = 1"
    then have "(cos phi)\<^sup>2 = 0" using sin_cos_squared_add[of phi] by simp
    then show False using c by simp
  qed
  then show "sin phi < 1" using sin_le_one[of phi] by linarith
  have "sin phi \<noteq> - 1"
  proof
    assume "sin phi = - 1"
    then have "(cos phi)\<^sup>2 = 0" using sin_cos_squared_add[of phi] by simp
    then show False using c by simp
  qed
  then show "- 1 < sin phi" using sin_ge_minus_one[of phi] by linarith
qed

lemma project_sin_bounds: "- 1 < project_sin q" "project_sin q < 1"
proof -
  let ?l = "max (min MAX_LATITUDE (lat q)) (- MAX_LATITUDE)"
  have r: "- (pi / 2) < ?l * DEG2RAD" "?l * DEG2RAD < pi / 2"
    using clamped_rad[OF project_clamp_abs[of "lat q"]] by simp_all
  show "- 1 < project_sin q" "project_sin q < 1"
    using sin_open_interval[OF r] by (simp_all add: project_sin_def Let_def)
qed

lemma rad_deg: "x * DEG2RAD * RAD2DEG = x"
  by (simp add: DEG2RAD_def RAD2DEG_def)

lemma unproject_project_lat:
  assumes "\<bar>lat p\<bar> \<le> MAX_LATITUDE"
  shows "lat (unproject (project p)) = lat p"
proof -
  have cl: "max (min MAX_LATITUDE (lat p)) (- MAX_LATITUDE) = lat p"
    using assms by auto
  have ps: "project_sin p = sin (lat p * DEG2RAD)"
    by (simp add: project_sin_def Let_def cl)
  have r: "- (pi / 2) < lat p * DEG2RAD" "lat p * DEG2RAD < pi / 2"
    using clamped_rad[OF assms] by simp_all
  have "lat (unproject (project p)) =
          (2 * arctan (exp (ln ((1 + sin (lat p * DEG2RAD)) / (1 - sin (lat p * DEG2RAD))) / 2))
             - pi / 2) * RAD2DEG"
    by (simp add: unproject_def project_def Let_def ps EARTH_RADIUS_def)
  also have "\<dots> = lat p * DEG2RAD * RAD2DEG"
    by (simp only: gd_merc[OF r])
  finally show ?thesis by (simp only: rad_deg)
qed

lemma unproject_project_lon: "lon (unproject (project p)) = lon p"
  by (simp add: unproject_def project_def Let_def EARTH_RADIUS_def DEG2RAD_def RAD2DEG_def)

lemma project_clamps:
  "project q = project \<lparr>lat = max (min MAX_LATITUDE (lat q)) (- MAX_LATITUDE), lon = lon q\<rparr>"
proof -
  have "max (min MAX_LATITUDE (max (min MAX_LATITUDE (lat q)) (- MAX_LATITUDE))) (- MAX_LATITUDE)
          = max (min MAX_LATITUDE (lat q)) (- MAX_LATITUDE)"
    by (simp add: MAX_LATITUDE_def)
  then show ?thesis by (simp add: project_def project_sin_def Let_def)
qed

lemma unproject_project_clamped:
  "unproject (project q) = \<lparr>lat = max (min MAX_LATITUDE (lat q)) (- MAX_LATITUDE), lon = lon q\<rparr>"
proof -
  let ?q = "\<lparr>lat = max (min MAX_LATITUDE (lat q)) (- MAX_LATITUDE), lon = lon q\<rparr>"
  have b: "\<bar>lat ?q\<bar> \<le> MAX_LATITUDE" using project_clamp_abs[of "lat q"] by simp
  have "lat (unproject (project ?q)) = lat ?q" by (rule unproject_project_lat[OF b])
  moreover have "lon (unproject (project ?q)) = lon ?q" by (rule unproject_project_lon)
  ultimately have "unproject (project ?q) = ?q" by (cases "unproject (project ?q)") simp
  then show ?thesis by (simp only: project_clamps[symmetric])
qed

text \<open>
  C2.  For every latitude in \<open>(-85, 85)\<close> and longitude in \<open>(-180, 180)\<close>,
  \<open>unproject (project p)\<close> gives back \<open>p\<close> within \<open>1e-9\<close> (exactly, in real arithmetic).
  For every input \<open>q\<close> whatsoever, \<open>project\<close> works on the latitude clamped to
  \<open>\<plusminus>85.05112878\<close>: it gives what it gives for the clamped latitude, its \<open>y\<close> is
  \<open>R * ln ((1 + s) / (1 - s)) / 2\<close> for the sine \<open>s\<close> of the clamped latitude, and \<open>s\<close> lies
  strictly between \<open>-1\<close> and \<open>1\<close>, so the divisor \<open>1 - s\<close> is not zero and the argument of
  the logarithm is positive; \<open>unproject\<close> of the result is the input with its latitude
  clamped.
\<close>

theorem mercator_round_trip:
  assumes "- 85 < lat p" and "lat p < 85" and "- 180 < lon p" and "lon p < 180"
  shows "\<bar>lat (unproject (project p)) - lat p\<bar> \<le> 1 / 10 ^ 9
       \<and> \<bar>lon (unproject (project p)) - lon p\<bar> \<le> 1 / 10 ^ 9
       \<and> project q
           = project \<lparr>lat = max (min MAX_LATITUDE (lat q)) (- MAX_LATITUDE), lon = lon q\<rparr>
       \<and> project q
           = \<lparr>px = EARTH_RADIUS * lon q * DEG2RAD,
              py = EARTH_RADIUS
                   * ln ((1 + sin (max (min MAX_LATITUDE (lat q)) (- MAX_LATITUDE) * DEG2RAD))
                         / (1 - sin (max (min MAX_LATITUDE (lat q)) (- MAX_LATITUDE) * DEG2RAD)))
                   / 2\<rparr>
       \<and> - 1 < sin (max (min MAX_LATITUDE (lat q)) (- MAX_LATITUDE) * DEG2RAD)
       \<and> sin (max (min MAX_LATITUDE (lat q)) (- MAX_LATITUDE) * DEG2RAD) < 1
       \<and> unproject (project q)
           = \<lparr>lat = max (min MAX_LATITUDE (lat q)) (- MAX_LATITUDE), lon = lon q\<rparr>"
proof -
  have "\<bar>lat p\<bar> \<le> MAX_LATITUDE" using assms by (simp add: MAX_LATITUDE_def)
  then have a: "lat (unproject (project p)) = lat p" by (rule unproject_project_lat)
  have b: "lon (unproject (project p)) = lon p" by (rule unproject_project_lon)
  have c: "project q
           = \<lparr>px = EARTH_RADIUS * lon q * DEG2RAD,
              py = EARTH_RADIUS
                   * ln ((1 + sin (max (min MAX_LATITUDE (lat q)) (- MAX_LATITUDE) * DEG2RAD))
                         / (1 - sin (max (min MAX_LATITUDE (lat q)) (- MAX_LATITUDE) * DEG2RAD)))
                   / 2\<rparr>"
    by (simp add: project_def project_sin_def Let_def)
  have d: "- 1 < sin (max (min MAX_LATITUDE (lat q)) (- MAX_LATITUDE) * DEG2RAD)"
      "sin (max (min MAX_LATITUDE (lat q)) (- MAX_LATITUDE) * DEG2RAD) < 1"
    using project_sin_bounds[of q] by (simp_all add: project_sin_def Let_def)
  have a': "\<bar>lat (unproject (project p)) - lat p\<bar> \<le> 1 / 10 ^ 9" unfolding a by simp
  have b': "\<bar>lon (unproject (project p)) - lon p\<bar> \<le> 1 / 10 ^ 9" unfolding b by simp
  show ?thesis
    using a' b' project_clamps[of q] c d unproject_project_clamped[of q]
    apply -
    apply (intro conjI)
    apply assumption+
    done
qed

theorem mercator_round_trip_witness:
  "- 85 < (51.505::real) \<and> (51.505::real) < 85 \<and> - 180 < (- 0.09::real) \<and> (- 0.09::real) < 180
   \<and> \<bar>lat (unproject (project \<lparr>lat = 51.505, lon = - 0.09\<rparr>)) - 51.505\<bar> \<le> 1 / 10 ^ 9
   \<and> \<bar>lon (unproject (project \<lparr>lat = 51.505, lon = - 0.09\<rparr>)) - (- 0.09)\<bar> \<le> 1 / 10 ^ 9
   \<and> unproject (project \<lparr>lat = 90, lon = 10\<rparr>) = \<lparr>lat = 85.05112878, lon = 10\<rparr>"
proof -
  have h: "- 85 < lat \<lparr>lat = 51.505, lon = - 0.09\<rparr>" "lat \<lparr>lat = 51.505, lon = - 0.09\<rparr> < 85"
      "- 180 < lon \<lparr>lat = 51.505, lon = - 0.09\<rparr>" "lon \<lparr>lat = 51.505, lon = - 0.09\<rparr> < 180"
    by simp_all
  note t = mercator_round_trip[OF h, of "\<lparr>lat = 90, lon = 10\<rparr>"]
  have a: "\<bar>lat (unproject (project \<lparr>lat = 51.505, lon = - 0.09\<rparr>)) - 51.505\<bar> \<le> 1 / 10 ^ 9"
    using t[THEN conjunct1] by simp
  have b: "\<bar>lon (unproject (project \<lparr>lat = 51.505, lon = - 0.09\<rparr>)) - (- 0.09)\<bar> \<le> 1 / 10 ^ 9"
    using t[THEN conjunct2, THEN conjunct1] by simp
  have c: "unproject (project \<lparr>lat = 90, lon = 10\<rparr>) = \<lparr>lat = 85.05112878, lon = 10\<rparr>"
    using t[THEN conjunct2, THEN conjunct2, THEN conjunct2, THEN conjunct2, THEN conjunct2,
        THEN conjunct2]
    by (simp add: MAX_LATITUDE_def)
  show ?thesis using a b c by simp
qed

section \<open>The remainder operator\<close>

lemma js_rem_shift: "js_rem a b = a + b * of_int (- js_trunc (a / b))"
  by (simp add: js_rem_def)




section \<open>Rounding to doubles\<close>

lemma pow2_nat: "0 \<le> j \<Longrightarrow> (2::real) powr of_int j = 2 ^ nat j"
  by (simp add: powr_real_of_int)

lemma below_overflow: "k \<le> 1023 \<Longrightarrow> (2::real) powr of_int k < 2 powr 1024"
  by (rule powr_less_mono) simp_all

lemma round_even_of_int: "round_even (of_int n) = n"
  by (simp add: round_even_def Let_def)





lemma double_exp_eq:
  assumes "2 powr of_int k \<le> x" and "x < 2 powr of_int (k + 1)" and "- 1022 \<le> k"
  shows "double_exp x = k"
proof -
  have "0 < (2::real) powr of_int k" by simp
  then have p: "0 < x" using assms(1) by linarith
  have "\<lfloor>log 2 x\<rfloor> = k"
    using assms(1,2) floor_log_eq_powr_iff[OF p, of 2 k] by simp
  then show ?thesis using p assms(3) by (simp add: double_exp_def)
qed



lemma pow2_finite:
  assumes "- 1022 \<le> z" and "z \<le> 1023"
  shows "pow2 z = Fin (2 powr of_int z)"
proof -
  define x :: real where "x = 2 powr of_int z"
  have e: "double_exp x = z"
    unfolding x_def using assms(1) by (intro double_exp_eq) simp_all
  have q: "x / 2 powr (of_int z - 52) = of_int (2 ^ 52)"
  proof -
    have "x / 2 powr (of_int z - 52) = 2 powr (of_int z - (of_int z - 52))"
      unfolding x_def by (simp only: powr_diff)
    also have "\<dots> = 2 powr 52" by simp
    finally show ?thesis by simp
  qed
  have r: "of_int (round_even (x / 2 powr (of_int z - 52))) * 2 powr (of_int z - 52) = x"
  proof -
    have "of_int (2 ^ 52) * 2 powr (of_int z - 52) = (2::real) powr 52 * 2 powr (of_int z - 52)"
      by simp
    also have "\<dots> = 2 powr (52 + (of_int z - 52))" by (simp only: powr_add)
    also have "\<dots> = x" by (simp add: x_def)
    finally show ?thesis unfolding q round_even_of_int .
  qed
  have "(2::real) powr of_int z < 2 powr 1024" using assms(2) by (rule below_overflow)
  moreover have "\<bar>x\<bar> = 2 powr of_int z" by (simp add: x_def)
  ultimately have fin: "\<not> 2 powr 1024 \<le> \<bar>x\<bar>" by linarith
  have "x \<noteq> 0" by (simp add: x_def)
  then have "to_double x = Fin x"
    using fin by (simp add: to_double_def Let_def e r)
  then show ?thesis by (simp add: pow2_def x_def)
qed

section \<open>Tile indices\<close>






text \<open>Beyond these zooms the two sums are rounded.\<close>

lemma to_double_eval:
  assumes "x \<noteq> 0" and "double_exp x = e" and "u = 2 powr (of_int e - 52)"
    and "round_even (x / u) = n" and "\<bar>of_int n * u\<bar> < 2 powr 1024"
  shows "to_double x = Fin (of_int n * u)"
proof -
  have "\<not> 2 powr 1024 \<le> \<bar>of_int n * u\<bar>" using assms(5) by linarith
  then show ?thesis
    using assms(1) unfolding to_double_def Let_def assms(2) assms(3)[symmetric] assms(4)
    by (simp only: if_False)
qed





lemma round_up_tiny: "to_double (4 - 1 / 2 ^ 60) = Fin 4"
proof -
  define x :: real where "x = 4 - 1 / 2 ^ 60"
  define u :: real where "u = 1 / 2 ^ 51"
  have x0: "x \<noteq> 0" by (simp add: x_def)
  have e: "double_exp x = 1" unfolding x_def by (rule double_exp_eq) simp_all
  have "(2::real) powr (- 51) = 1 / 2 powr 51" by (simp only: powr_minus_divide)
  then have u: "u = 2 powr (of_int 1 - 52)" by (simp add: u_def)
  have f: "\<lfloor>x / u\<rfloor> = 2 ^ 53 - 1" by (simp add: x_def u_def floor_eq_iff)
  have d: "x / u - of_int (2 ^ 53 - 1) = 511 / 512" by (simp add: x_def u_def)
  have re: "round_even (x / u) = 2 ^ 53"
    unfolding round_even_def Let_def f d by simp
  have fin: "\<bar>of_int (2 ^ 53) * u\<bar> < 2 powr 1024"
    using below_overflow[of 2] by (simp add: u_def)
  have "to_double x = Fin (of_int (2 ^ 53) * u)" by (rule to_double_eval[OF x0 e u re fin])
  then show ?thesis by (simp add: x_def u_def)
qed



text \<open>A coordinate just left of the antimeridian is put into column 0, not column 3.\<close>

lemma tile_intX_tiny: "tile_intX (- (1 / 2 ^ 60)) 2 = Fin 0"
proof -
  have sc: "pow2 2 = Fin 4" using pow2_finite[of 2] by (simp add: pow2_nat)
  have r0: "js_mod (Fin (- (1 / 2 ^ 60))) (Fin 4) = Fin (- (1 / 2 ^ 60))"
    by (simp add: js_rem_def js_trunc_def ceiling_eq_iff)
  have "js_add (Fin (- (1 / 2 ^ 60))) (Fin 4) = to_double (4 - 1 / 2 ^ 60)" by simp
  then have r1: "js_add (Fin (- (1 / 2 ^ 60))) (Fin 4) = Fin 4" by (simp only: round_up_tiny)
  have r2: "js_mod (Fin 4) (Fin 4) = Fin 0" by (simp add: js_rem_def js_trunc_def)
  show ?thesis unfolding tile_intX_def Let_def sc r0 r1 r2 by simp
qed





section \<open>Eviction\<close>

lemma evict_fold:
  "k \<le> length es \<Longrightarrow>
     fold (\<lambda>i c. AList.delete (fst (es ! i)) c) [0..<k] c =
     filter (\<lambda>a. fst a \<notin> fst ` set (take k es)) c"
proof (induction k)
  case 0
  show ?case by simp
next
  case (Suc k)
  then have k: "k < length es" by simp
  have tk: "take (Suc k) es = take k es @ [es ! k]"
    using k by (simp add: take_Suc_conv_app_nth)
  have "fold (\<lambda>i c. AList.delete (fst (es ! i)) c) [0..<Suc k] c =
        AList.delete (fst (es ! k)) (filter (\<lambda>a. fst a \<notin> fst ` set (take k es)) c)"
    using Suc.IH k by simp
  also have "\<dots> = filter (\<lambda>a. fst a \<notin> fst ` set (take (Suc k) es)) c"
    by (auto simp add: AList.delete_eq tk intro!: filter_cong)
  finally show ?case .
qed

lemma evict_keys_entries:
  assumes d: "distinct (map fst c)" and s: "set es = set c"
  shows "filter (\<lambda>a. fst a \<notin> fst ` set (take k es)) c = filter (\<lambda>a. a \<notin> set (take k es)) c"
proof (rule filter_cong[OF refl])
  fix a assume a: "a \<in> set c"
  have inj: "inj_on fst (set c)" using d by (simp add: distinct_map)
  have sub: "set (take k es) \<subseteq> set c" using s set_take_subset[of k es] by simp
  show "(fst a \<notin> fst ` set (take k es)) = (a \<notin> set (take k es))"
  proof
    assume "fst a \<notin> fst ` set (take k es)"
    then show "a \<notin> set (take k es)" by auto
  next
    assume n: "a \<notin> set (take k es)"
    show "fst a \<notin> fst ` set (take k es)"
    proof
      assume "fst a \<in> fst ` set (take k es)"
      then obtain b where b: "b \<in> set (take k es)" "fst a = fst b" by auto
      then have "a = b" using inj a sub by (auto dest: inj_onD)
      then show False using n b by simp
    qed
  qed
qed

lemma performEviction_cache:
  assumes d: "distinct (map fst (tileCache L))"
    and n: "maxCacheSize L < length (tileCache L)"
  shows "tileCache (performEviction L) =
     filter (\<lambda>a. a \<notin> set (take (length (tileCache L) - maxCacheSize L)
                                (sort_key (\<lambda>a. lastUsed (snd a)) (tileCache L)))) (tileCache L)"
proof -
  let ?es = "sort_key (\<lambda>a. lastUsed (snd a)) (tileCache L)"
  let ?k = "length (tileCache L) - maxCacheSize L"
  have k: "?k \<le> length ?es" by simp
  have "tileCache (performEviction L) =
        fold (\<lambda>i c. AList.delete (fst (?es ! i)) c) [0..<?k] (tileCache L)"
    using n by (simp add: performEviction_def Let_def)
  also have "\<dots> = filter (\<lambda>a. fst a \<notin> fst ` set (take ?k ?es)) (tileCache L)"
    by (rule evict_fold[OF k])
  also have "\<dots> = filter (\<lambda>a. a \<notin> set (take ?k ?es)) (tileCache L)"
    by (rule evict_keys_entries[OF d]) simp
  finally show ?thesis .
qed

lemma performEviction_small:
  "length (tileCache L) \<le> maxCacheSize L \<Longrightarrow> performEviction L = L"
  by (simp add: performEviction_def)

text \<open>
  C4.  When the cache holds \<open>maxCacheSize + k\<close> tiles under distinct keys, with \<open>k \<ge> 1\<close>,
  one run of \<open>_performEviction\<close> leaves exactly \<open>maxCacheSize\<close> entries; the entries it
  removes are \<open>k\<close> entries of the cache none of which was used later than any entry
  that stays.  A cache of at most \<open>maxCacheSize\<close> entries is left as it is.
\<close>

theorem eviction_removes_least_recently_used:
  assumes d: "distinct (map fst (tileCache L))"
    and n: "length (tileCache L) = maxCacheSize L + k"
    and k: "1 \<le> k"
  shows "length (tileCache (performEviction L)) = maxCacheSize L
       \<and> (\<exists>removed. length removed = k \<and> distinct removed
            \<and> set removed \<subseteq> set (tileCache L)
            \<and> set (tileCache (performEviction L)) = set (tileCache L) - set removed
            \<and> (\<forall>r \<in> set removed. \<forall>q \<in> set (tileCache (performEviction L)).
                  lastUsed (snd r) \<le> lastUsed (snd q)))
       \<and> (length (tileCache L') \<le> maxCacheSize L' \<longrightarrow> performEviction L' = L')"
proof -
  let ?c = "tileCache L"
  let ?es = "sort_key (\<lambda>a. lastUsed (snd a)) ?c"
  let ?rm = "take k ?es"
  have kk: "length ?c - maxCacheSize L = k" using n by simp
  have gt: "maxCacheSize L < length ?c" using n k by simp
  have res: "tileCache (performEviction L) = filter (\<lambda>a. a \<notin> set ?rm) ?c"
    using performEviction_cache[OF d gt] by (simp only: kk)
  have dc: "distinct ?c" using d by (simp add: distinct_map)
  have des: "distinct ?es" using dc by simp
  have lrm: "length ?rm = k" using n by simp
  have drm: "distinct ?rm" using des by simp
  have sub: "set ?rm \<subseteq> set ?c" using set_take_subset[of k ?es] by simp
  have sres: "set (tileCache (performEviction L)) = set ?c - set ?rm"
    by (auto simp add: res)
  have "length (tileCache (performEviction L)) = card (set ?c - set ?rm)"
    using sres distinct_card[of "tileCache (performEviction L)"] dc
    by (simp add: res)
  also have "\<dots> = card (set ?c) - card (set ?rm)"
    using sub by (simp add: card_Diff_subset)
  also have "\<dots> = length ?c - k"
    using dc drm lrm by (simp add: distinct_card)
  finally have len: "length (tileCache (performEviction L)) = maxCacheSize L"
    using n by simp
  have "sorted (map (\<lambda>a. lastUsed (snd a)) (take k ?es) @ map (\<lambda>a. lastUsed (snd a)) (drop k ?es))"
    by (simp only: map_append[symmetric] append_take_drop_id sorted_sort_key)
  then have srt: "\<forall>x \<in> set (map (\<lambda>a. lastUsed (snd a)) (take k ?es)).
                  \<forall>y \<in> set (map (\<lambda>a. lastUsed (snd a)) (drop k ?es)). x \<le> y"
    by (simp only: sorted_append) blast
  have ord: "\<forall>r \<in> set ?rm. \<forall>q \<in> set (tileCache (performEviction L)).
                  lastUsed (snd r) \<le> lastUsed (snd q)"
  proof (intro ballI)
    fix r q assume r: "r \<in> set ?rm" and q: "q \<in> set (tileCache (performEviction L))"
    have "q \<in> set ?es" "q \<notin> set ?rm" using q sres by simp_all
    then have "q \<in> set (drop k ?es)"
      using set_append[of "take k ?es" "drop k ?es"] by (simp only: append_take_drop_id) blast
    then show "lastUsed (snd r) \<le> lastUsed (snd q)"
      using srt r by auto
  qed
  have small: "length (tileCache L') \<le> maxCacheSize L' \<longrightarrow> performEviction L' = L'"
    by (simp add: performEviction_small)
  show ?thesis using len lrm drm sub sres ord small by blast
qed


theorem eviction_removes_least_recently_used_witness:
  "distinct (map fst (tileCache
      ((TileLayer_new ''t'' 0 19 False 2)\<lparr>tileCache :=
         [(''0/0/0'', \<lparr>img = 0, loaded = True, loadedAt = 1, lastUsed = 5\<rparr>),
          (''0/1/0'', \<lparr>img = 1, loaded = False, loadedAt = 2, lastUsed = 2\<rparr>),
          (''0/2/0'', \<lparr>img = 2, loaded = True, loadedAt = 3, lastUsed = 4\<rparr>)]\<rparr>)))
   \<and> length (tileCache
      ((TileLayer_new ''t'' 0 19 False 2)\<lparr>tileCache :=
         [(''0/0/0'', \<lparr>img = 0, loaded = True, loadedAt = 1, lastUsed = 5\<rparr>),
          (''0/1/0'', \<lparr>img = 1, loaded = False, loadedAt = 2, lastUsed = 2\<rparr>),
          (''0/2/0'', \<lparr>img = 2, loaded = True, loadedAt = 3, lastUsed = 4\<rparr>)]\<rparr>))
       = maxCacheSize (TileLayer_new ''t'' 0 19 False 2) + 1
   \<and> (1::nat) \<le> 1
   \<and> length (tileCache (performEviction
      ((TileLayer_new ''t'' 0 19 False 2)\<lparr>tileCache :=
         [(''0/0/0'', \<lparr>img = 0, loaded = True, loadedAt = 1, lastUsed = 5\<rparr>),
          (''0/1/0'', \<lparr>img = 1, loaded = False, loadedAt = 2, lastUsed = 2\<rparr>),
          (''0/2/0'', \<lparr>img = 2, loaded = True, loadedAt = 3, lastUsed = 4\<rparr>)]\<rparr>))) = 2
   \<and> map fst (tileCache (performEviction
      ((TileLayer_new ''t'' 0 19 False 2)\<lparr>tileCache :=
         [(''0/0/0'', \<lparr>img = 0, loaded = True, loadedAt = 1, lastUsed = 5\<rparr>),
          (''0/1/0'', \<lparr>img = 1, loaded = False, loadedAt = 2, lastUsed = 2\<rparr>),
          (''0/2/0'', \<lparr>img = 2, loaded = True, loadedAt = 3, lastUsed = 4\<rparr>)]\<rparr>)))
       = [''0/0/0'', ''0/2/0'']
   \<and> length (tileCache (TileLayer_new ''t'' 0 19 False 2))
        \<le> maxCacheSize (TileLayer_new ''t'' 0 19 False 2)
   \<and> performEviction (TileLayer_new ''t'' 0 19 False 2) = TileLayer_new ''t'' 0 19 False 2"
proof -
  let ?L = "(TileLayer_new ''t'' 0 19 False 2)\<lparr>tileCache :=
         [(''0/0/0'', \<lparr>img = 0, loaded = True, loadedAt = 1, lastUsed = 5\<rparr>),
          (''0/1/0'', \<lparr>img = 1, loaded = False, loadedAt = 2, lastUsed = 2\<rparr>),
          (''0/2/0'', \<lparr>img = 2, loaded = True, loadedAt = 3, lastUsed = 4\<rparr>)]\<rparr>"
  have d: "distinct (map fst (tileCache ?L))" by simp
  have n: "length (tileCache ?L) = maxCacheSize ?L + 1" by (simp add: TileLayer_new_def)
  have k: "(1::nat) \<le> 1" by simp
  note t = eviction_removes_least_recently_used[OF d n k, of "TileLayer_new ''t'' 0 19 False 2"]
  have keys: "map fst (tileCache (performEviction ?L)) = [''0/0/0'', ''0/2/0'']"
    by (simp add: performEviction_def TileLayer_new_def AList.delete_eq)
  have small: "length (tileCache (TileLayer_new ''t'' 0 19 False 2))
        \<le> maxCacheSize (TileLayer_new ''t'' 0 19 False 2)"
    by (simp add: TileLayer_new_def)
  show ?thesis using d n t keys small by (simp add: TileLayer_new_def)
qed

section \<open>Longitudes and angles\<close>

lemma wrap_down_props:
  "wrap_down l \<le> 180 \<and> (l \<le> 180 \<longrightarrow> wrap_down l = l) \<and> (180 < l \<longrightarrow> - 180 < wrap_down l)
   \<and> (\<exists>k::int. wrap_down l = l + 360 * of_int k)"
proof (induction l rule: wrap_down.induct)
  case (1 l)
  show ?case
  proof (cases "180 < l")
    case False
    then have "wrap_down l = l" by (simp add: wrap_down.simps[of l])
    moreover have "l = l + 360 * of_int (0::int)" by simp
    ultimately show ?thesis using False by (metis not_less)
  next
    case True
    then have e: "wrap_down l = wrap_down (l - 360)" by (simp add: wrap_down.simps[of l])
    from 1[OF True] obtain k :: int where
      ih: "wrap_down (l - 360) \<le> 180" "l - 360 \<le> 180 \<longrightarrow> wrap_down (l - 360) = l - 360"
          "180 < l - 360 \<longrightarrow> - 180 < wrap_down (l - 360)"
          "wrap_down (l - 360) = l - 360 + 360 * of_int k"
      by blast
    have lo: "- 180 < wrap_down (l - 360)"
    proof (cases "180 < l - 360")
      case True
      then show ?thesis using ih(3) by simp
    next
      case False
      then have "wrap_down (l - 360) = l - 360" using ih(2) by simp
      then show ?thesis using \<open>180 < l\<close> by simp
    qed
    have "wrap_down (l - 360) = l + 360 * of_int (k - 1)" using ih(4) by simp
    then have "\<exists>k::int. wrap_down l = l + 360 * of_int k" unfolding e by blast
    then show ?thesis using True ih(1) lo e by simp
  qed
qed

lemma wrap_up_props:
  "- 180 \<le> wrap_up l \<and> (- 180 \<le> l \<longrightarrow> wrap_up l = l) \<and> (l < - 180 \<longrightarrow> wrap_up l < 180)
   \<and> (\<exists>k::int. wrap_up l = l + 360 * of_int k)"
proof (induction l rule: wrap_up.induct)
  case (1 l)
  show ?case
  proof (cases "l < - 180")
    case False
    then have "wrap_up l = l" by (simp add: wrap_up.simps[of l])
    moreover have "l = l + 360 * of_int (0::int)" by simp
    ultimately show ?thesis using False by (metis not_less)
  next
    case True
    then have e: "wrap_up l = wrap_up (l + 360)" by (simp add: wrap_up.simps[of l])
    from 1[OF True] obtain k :: int where
      ih: "- 180 \<le> wrap_up (l + 360)" "- 180 \<le> l + 360 \<longrightarrow> wrap_up (l + 360) = l + 360"
          "l + 360 < - 180 \<longrightarrow> wrap_up (l + 360) < 180"
          "wrap_up (l + 360) = l + 360 + 360 * of_int k"
      by blast
    have hi: "wrap_up (l + 360) < 180"
    proof (cases "l + 360 < - 180")
      case True
      then show ?thesis using ih(3) by simp
    next
      case False
      then have "wrap_up (l + 360) = l + 360" using ih(2) by simp
      then show ?thesis using \<open>l < - 180\<close> by simp
    qed
    have "wrap_up (l + 360) = l + 360 * of_int (k + 1)" using ih(4) by simp
    then have "\<exists>k::int. wrap_up l = l + 360 * of_int k" unfolding e by blast
    then show ?thesis using True ih(1) hi e by simp
  qed
qed

lemma wrapLongitude_range: "- 180 \<le> wrapLongitude l" "wrapLongitude l \<le> 180"
proof -
  show "- 180 \<le> wrapLongitude l" using wrap_up_props[of "wrap_down l"] by (simp add: wrapLongitude_def)
  show "wrapLongitude l \<le> 180"
  proof (cases "- 180 \<le> wrap_down l")
    case True
    then have "wrap_up (wrap_down l) = wrap_down l" using wrap_up_props[of "wrap_down l"] by simp
    then show ?thesis using wrap_down_props[of l] by (simp add: wrapLongitude_def)
  next
    case False
    then have "wrap_up (wrap_down l) < 180" using wrap_up_props[of "wrap_down l"] by simp
    then show ?thesis by (simp add: wrapLongitude_def)
  qed
qed


lemma wrapLongitude_id: "- 180 \<le> l \<Longrightarrow> l \<le> 180 \<Longrightarrow> wrapLongitude l = l"
  using wrap_down_props[of l] wrap_up_props[of l] by (simp add: wrapLongitude_def)


lemma atan2_range: "- pi < atan2 y x" "atan2 y x \<le> pi"
proof -
  have b: "- (pi / 2) < arctan (y / x)" "arctan (y / x) < pi / 2"
    using arctan_lbound arctan_ubound by blast+
  have p: "0 < pi" by simp
  have neg: "x < 0 \<Longrightarrow> 0 \<le> y \<Longrightarrow> arctan (y / x) \<le> 0"
  proof -
    assume "x < 0" "0 \<le> y"
    then have "y / x \<le> 0" by (simp add: divide_nonneg_neg)
    then show "arctan (y / x) \<le> 0" using arctan_monotone'[of "y / x" 0] by simp
  qed
  have pos: "x < 0 \<Longrightarrow> y < 0 \<Longrightarrow> 0 < arctan (y / x)"
  proof -
    assume "x < 0" "y < 0"
    then have "0 < y / x" by (simp add: divide_neg_neg)
    then show "0 < arctan (y / x)" using arctan_monotone[of 0 "y / x"] by simp
  qed
  show "- pi < atan2 y x" using b p neg pos unfolding atan2_def by (auto split: if_splits)
  show "atan2 y x \<le> pi" using b p neg pos unfolding atan2_def by (auto split: if_splits)
qed


lemma normalizeAngle_range: "- pi < normalizeAngle r" "normalizeAngle r \<le> pi"
  unfolding normalizeAngle_def by (rule atan2_range)+





lemma wrapDeltaLon_dateline: "wrapDeltaLon (179 - (- 179)) = - 2"
  by (simp add: wrapDeltaLon_def js_rem_def js_trunc_def)

section \<open>flyTo: interpolation\<close>

lemma flyTo_job:
  assumes "flyTo m opts now = (m0, j)"
  shows "sC j = center m"
    and "dLon j = wrapDeltaLon (wrapLongitude (lon (case f_center opts of Some c \<Rightarrow> c | None \<Rightarrow> center m))
                                - lon (center m))"
    and "dLat j = lat (case f_center opts of Some c \<Rightarrow> c | None \<Rightarrow> center m) - lat (center m)"
    and "sZ j = zoom m"
    and "eZ j = max (layerMinZoom m) (min (layerMaxZoom m) (num_or (f_zoom opts) (zoom m)))"
    and "sB j = bearing m"
    and "dB j = normalizeAngle (num_or (f_bearing opts) (bearing m) - bearing m)"
    and "easing j = (case f_easing opts of Some f \<Rightarrow> f | None \<Rightarrow> easeInOutCubic)"
    and "startT j = now"
    and "duration j = num_or (f_duration opts) 800"
proof -
  have j: "j = snd (flyTo m opts now)" using assms by simp
  show "sC j = center m"
    and "dLon j = wrapDeltaLon (wrapLongitude (lon (case f_center opts of Some c \<Rightarrow> c | None \<Rightarrow> center m))
                                - lon (center m))"
    and "dLat j = lat (case f_center opts of Some c \<Rightarrow> c | None \<Rightarrow> center m) - lat (center m)"
    and "sZ j = zoom m"
    and "eZ j = max (layerMinZoom m) (min (layerMaxZoom m) (num_or (f_zoom opts) (zoom m)))"
    and "sB j = bearing m"
    and "dB j = normalizeAngle (num_or (f_bearing opts) (bearing m) - bearing m)"
    and "easing j = (case f_easing opts of Some f \<Rightarrow> f | None \<Rightarrow> easeInOutCubic)"
    and "startT j = now"
    and "duration j = num_or (f_duration opts) 800"
    unfolding j by (simp_all add: flyTo_def Let_def split_beta shortestAngleDiff_def)
qed


lemma flyTo_step_state:
  "center (fst (flyTo_step m j now)) =
      \<lparr>lat = clampLatitude (lat (sC j) + dLat j * fly_p j now),
       lon = (if fly_t j now \<ge> 1 then wrapLongitude (lon (sC j) + dLon j * fly_p j now)
              else lon (sC j) + dLon j * fly_p j now)\<rparr>"
  "zoom (fst (flyTo_step m j now)) = sZ j + (eZ j - sZ j) * fly_p j now"
  "bearing (fst (flyTo_step m j now)) = normalizeAngle (sB j + dB j * fly_p j now)"
  by (simp_all add: flyTo_step_def Let_def split_beta)





section \<open>The viewport state and its ranges\<close>

lemma clampLatitude_range: "- MAX_LATITUDE \<le> clampLatitude x" "clampLatitude x \<le> MAX_LATITUDE"
  by (simp_all add: clampLatitude_def MIN_LATITUDE_def MAX_LATITUDE_def)


lemma screenToLatLon5_range:
  "- MAX_LATITUDE \<le> lat (screenToLatLon5 m ax ay zm br ctr)"
  "lat (screenToLatLon5 m ax ay zm br ctr) \<le> MAX_LATITUDE"
  "- 180 \<le> lon (screenToLatLon5 m ax ay zm br ctr)"
  "lon (screenToLatLon5 m ax ay zm br ctr) \<le> 180"
  by (simp_all add: screenToLatLon5_def Let_def clampLatitude_range wrapLongitude_range)

lemma Atlas_new_state:
  "- MAX_LATITUDE \<le> lat (center (Atlas_new c z cw ch r))"
  "lat (center (Atlas_new c z cw ch r)) \<le> MAX_LATITUDE"
  "- 180 \<le> lon (center (Atlas_new c z cw ch r))"
  "lon (center (Atlas_new c z cw ch r)) \<le> 180"
  "bearing (Atlas_new c z cw ch r) = 0"
  "zoom (Atlas_new c z cw ch r) = z"
  by (simp_all add: Atlas_new_def clampLatitude_range wrapLongitude_range)

lemma setZoom_state:
  "center (setZoom m z) = center m" "bearing (setZoom m z) = bearing m"
  "layerMinZoom (setZoom m z) = layerMinZoom m" "layerMaxZoom (setZoom m z) = layerMaxZoom m"
  by (simp_all add: setZoom_def Let_def layerMinZoom_def layerMaxZoom_def)

lemma setZoom_range:
  assumes "layerMinZoom m \<le> layerMaxZoom m"
  shows "layerMinZoom m \<le> zoom (setZoom m z)" "zoom (setZoom m z) \<le> layerMaxZoom m"
  using assms by (auto simp add: setZoom_def Let_def)

lemma setBearing_state:
  "center (setBearing m rad) = center m" "zoom (setBearing m rad) = zoom m"
  by (simp_all add: setBearing_def Let_def)

lemma setBearing_range:
  assumes "- pi < bearing m" "bearing m \<le> pi"
  shows "- pi < bearing (setBearing m rad)" "bearing (setBearing m rad) \<le> pi"
  using assms normalizeAngle_range[of rad] by (auto simp add: setBearing_def Let_def)

lemma dragMove_state:
  "- MAX_LATITUDE \<le> lat (center (dragMove m ds cx cy))"
  "lat (center (dragMove m ds cx cy)) \<le> MAX_LATITUDE"
  "- 180 \<le> lon (center (dragMove m ds cx cy))"
  "lon (center (dragMove m ds cx cy)) \<le> 180"
  "zoom (dragMove m ds cx cy) = zoom m"
  "bearing (dragMove m ds cx cy) = bearing m"
  by (simp_all add: dragMove_def Let_def screenToLatLon5_range)

lemma applyZoomRotateAbout_state:
  "- MAX_LATITUDE \<le> lat (center (applyZoomRotateAbout m ax ay nz nb a))"
  "lat (center (applyZoomRotateAbout m ax ay nz nb a)) \<le> MAX_LATITUDE"
  "- 180 \<le> lon (center (applyZoomRotateAbout m ax ay nz nb a))"
  "lon (center (applyZoomRotateAbout m ax ay nz nb a)) \<le> 180"
  "- pi < bearing (applyZoomRotateAbout m ax ay nz nb a)"
  "bearing (applyZoomRotateAbout m ax ay nz nb a) \<le> pi"
  "zoom (applyZoomRotateAbout m ax ay nz nb a) = max (layerMinZoom m) (min (layerMaxZoom m) nz)"
  by (simp_all add: applyZoomRotateAbout_def Let_def clampLatitude_range wrapLongitude_range
      normalizeAngle_range)

lemma flyTo_step_range:
  "- MAX_LATITUDE \<le> lat (center (fst (flyTo_step m j t)))"
  "lat (center (fst (flyTo_step m j t))) \<le> MAX_LATITUDE"
  "- pi < bearing (fst (flyTo_step m j t))"
  "bearing (fst (flyTo_step m j t)) \<le> pi"
  by (simp_all add: flyTo_step_state clampLatitude_range normalizeAngle_range)

lemma flyTo_step_last_lon:
  assumes "fly_t j t \<ge> 1"
  shows "- 180 \<le> lon (center (fst (flyTo_step m j t)))" "lon (center (fst (flyTo_step m j t))) \<le> 180"
  using assms by (simp_all add: flyTo_step_state wrapLongitude_range)

lemma flyTo_step_zoom:
  assumes "0 \<le> fly_p j t" "fly_p j t \<le> 1"
  shows "min (sZ j) (eZ j) \<le> zoom (fst (flyTo_step m j t))"
    "zoom (fst (flyTo_step m j t)) \<le> max (sZ j) (eZ j)"
proof -
  let ?p = "fly_p j t"
  have e: "zoom (fst (flyTo_step m j t)) = (1 - ?p) * sZ j + ?p * eZ j"
    by (simp add: flyTo_step_state algebra_simps)
  have a: "(1 - ?p) * min (sZ j) (eZ j) \<le> (1 - ?p) * sZ j" "?p * min (sZ j) (eZ j) \<le> ?p * eZ j"
    using assms by (simp_all add: mult_left_mono)
  have b: "(1 - ?p) * sZ j \<le> (1 - ?p) * max (sZ j) (eZ j)" "?p * eZ j \<le> ?p * max (sZ j) (eZ j)"
    using assms by (simp_all add: mult_left_mono)
  have "(1 - ?p) * min (sZ j) (eZ j) + ?p * min (sZ j) (eZ j) = min (sZ j) (eZ j)"
    by (simp add: algebra_simps)
  then show "min (sZ j) (eZ j) \<le> zoom (fst (flyTo_step m j t))"
    using a unfolding e by linarith
  have "(1 - ?p) * max (sZ j) (eZ j) + ?p * max (sZ j) (eZ j) = max (sZ j) (eZ j)"
    by (simp add: algebra_simps)
  then show "zoom (fst (flyTo_step m j t)) \<le> max (sZ j) (eZ j)"
    using b unfolding e by linarith
qed

lemma flyTo_target_zoom:
  assumes "flyTo m opts now = (m0, j)" "layerMinZoom m \<le> layerMaxZoom m"
  shows "layerMinZoom m \<le> eZ j" "eZ j \<le> layerMaxZoom m"
  using assms(2) unfolding flyTo_job(5)[OF assms(1)] by auto


lemma dateline_flight_frame:
  "lon (center (fst (flyTo_step (fst (flyTo (Atlas_new \<lparr>lat = 0, lon = - 179\<rparr> 3 800 600 1)
        \<lparr>f_center = Some \<lparr>lat = 0, lon = 179\<rparr>, f_zoom = Some 5, f_bearing = None,
          f_duration = None, f_easing = Some (\<lambda>t. t)\<rparr> 0))
        (snd (flyTo (Atlas_new \<lparr>lat = 0, lon = - 179\<rparr> 3 800 600 1)
        \<lparr>f_center = Some \<lparr>lat = 0, lon = 179\<rparr>, f_zoom = Some 5, f_bearing = None,
          f_duration = None, f_easing = Some (\<lambda>t. t)\<rparr> 0)) 600))) = - 180.5"
proof -
  let ?M = "(Atlas_new \<lparr>lat = 0, lon = - 179\<rparr> 3 800 600 1)"
  let ?O = "\<lparr>f_center = Some \<lparr>lat = 0, lon = 179\<rparr>, f_zoom = Some 5, f_bearing = None,
          f_duration = None, f_easing = Some (\<lambda>t. t)\<rparr>"
  have cM: "center ?M = \<lparr>lat = 0, lon = - 179\<rparr>"
    by (simp add: Atlas_new_def clampLatitude_def MIN_LATITUDE_def MAX_LATITUDE_def wrapLongitude_id)
  have h: "flyTo ?M ?O 0 = (fst (flyTo ?M ?O 0), snd (flyTo ?M ?O 0))" by simp
  have j: "sC (snd (flyTo ?M ?O 0)) = \<lparr>lat = 0, lon = - 179\<rparr>"
      "dLon (snd (flyTo ?M ?O 0)) = - 2"
    using flyTo_job(1,2)[OF h] wrapDeltaLon_dateline by (simp_all add: cM wrapLongitude_id)
  have d: "duration (snd (flyTo ?M ?O 0)) = 800" "easing (snd (flyTo ?M ?O 0)) = (\<lambda>t. t)"
      "startT (snd (flyTo ?M ?O 0)) = 0"
    by (simp_all add: flyTo_def Let_def split_beta num_or_def)
  have t: "fly_t (snd (flyTo ?M ?O 0)) 600 = 0.75" by (simp add: fly_t_def d)
  have p: "fly_p (snd (flyTo ?M ?O 0)) 600 = 0.75" by (simp add: fly_p_def Let_def t d)
  show ?thesis by (simp add: flyTo_step_state t p j)
qed

theorem viewport_ranges_counterexample:
  "\<not> (- 180 < lon (center (Atlas_new \<lparr>lat = 0, lon = - 180\<rparr> 3 800 600 1))
       \<and> lon (center (Atlas_new \<lparr>lat = 0, lon = - 180\<rparr> 3 800 600 1)) \<le> 180)
   \<and> \<not> (- 180 < lon (center (fst (flyTo_step (fst (flyTo (Atlas_new \<lparr>lat = 0, lon = - 179\<rparr> 3 800 600 1)
        \<lparr>f_center = Some \<lparr>lat = 0, lon = 179\<rparr>, f_zoom = Some 5, f_bearing = None,
          f_duration = None, f_easing = Some (\<lambda>t. t)\<rparr> 0))
        (snd (flyTo (Atlas_new \<lparr>lat = 0, lon = - 179\<rparr> 3 800 600 1)
        \<lparr>f_center = Some \<lparr>lat = 0, lon = 179\<rparr>, f_zoom = Some 5, f_bearing = None,
          f_duration = None, f_easing = Some (\<lambda>t. t)\<rparr> 0)) 600)))
       \<and> lon (center (fst (flyTo_step (fst (flyTo (Atlas_new \<lparr>lat = 0, lon = - 179\<rparr> 3 800 600 1)
        \<lparr>f_center = Some \<lparr>lat = 0, lon = 179\<rparr>, f_zoom = Some 5, f_bearing = None,
          f_duration = None, f_easing = Some (\<lambda>t. t)\<rparr> 0))
        (snd (flyTo (Atlas_new \<lparr>lat = 0, lon = - 179\<rparr> 3 800 600 1)
        \<lparr>f_center = Some \<lparr>lat = 0, lon = 179\<rparr>, f_zoom = Some 5, f_bearing = None,
          f_duration = None, f_easing = Some (\<lambda>t. t)\<rparr> 0)) 600))) \<le> 180)
   \<and> \<not> (layerMinZoom (Atlas_new \<lparr>lat = 0, lon = 0\<rparr> 25 800 600 1)
          \<le> zoom (Atlas_new \<lparr>lat = 0, lon = 0\<rparr> 25 800 600 1)
       \<and> zoom (Atlas_new \<lparr>lat = 0, lon = 0\<rparr> 25 800 600 1)
          \<le> layerMaxZoom (Atlas_new \<lparr>lat = 0, lon = 0\<rparr> 25 800 600 1))"
proof -
  have a: "lon (center (Atlas_new \<lparr>lat = 0, lon = - 180\<rparr> 3 800 600 1)) = - 180"
    by (simp add: Atlas_new_def wrapLongitude_id)
  have c: "zoom (Atlas_new \<lparr>lat = 0, lon = 0\<rparr> 25 800 600 1) = 25"
      "layerMaxZoom (Atlas_new \<lparr>lat = 0, lon = 0\<rparr> 25 800 600 1) = 18"
    by (simp_all add: Atlas_new_def layerMaxZoom_def)
  show ?thesis unfolding a c dateline_flight_frame by simp
qed

text \<open>
  C7, as the code has it.  After construction, a drag move and \<open>applyZoomRotateAbout\<close>, and
  after the \<open>flyTo\<close> frame whose time fraction has reached 1, the center latitude lies in
  \<open>[-85.05112878, 85.05112878]\<close> and the center longitude in \<open>[-180, 180]\<close>, both ends
  included; \<open>setZoom\<close> and \<open>setBearing\<close> leave the center alone; every \<open>flyTo\<close> frame
  clamps the latitude.  After \<open>setZoom\<close> and \<open>applyZoomRotateAbout\<close> the zoom lies in the
  layer's \<open>[minZoom, maxZoom]\<close> when \<open>minZoom \<le> maxZoom\<close>; on a \<open>flyTo\<close> frame it lies
  between the start zoom and the target zoom when the eased progress is in \<open>[0, 1]\<close>, and
  the target zoom of a job lies in the layer's range.  After construction,
  \<open>applyZoomRotateAbout\<close> and every \<open>flyTo\<close> frame the bearing lies in \<open>(-\<pi>, \<pi>]\<close>, and
  \<open>setBearing\<close> keeps it there.
\<close>

theorem viewport_ranges:
  "\<bar>lat (center (Atlas_new c z0 cw ch r))\<bar> \<le> MAX_LATITUDE
   \<and> - 180 \<le> lon (center (Atlas_new c z0 cw ch r))
   \<and> lon (center (Atlas_new c z0 cw ch r)) \<le> 180
   \<and> bearing (Atlas_new c z0 cw ch r) = 0
   \<and> center (setZoom m z) = center m \<and> bearing (setZoom m z) = bearing m
   \<and> (layerMinZoom m \<le> layerMaxZoom m \<longrightarrow>
        layerMinZoom m \<le> zoom (setZoom m z) \<and> zoom (setZoom m z) \<le> layerMaxZoom m)
   \<and> center (setBearing m rad) = center m \<and> zoom (setBearing m rad) = zoom m
   \<and> (- pi < bearing m \<and> bearing m \<le> pi \<longrightarrow>
        - pi < bearing (setBearing m rad) \<and> bearing (setBearing m rad) \<le> pi)
   \<and> \<bar>lat (center (dragMove m ds cx cy))\<bar> \<le> MAX_LATITUDE
   \<and> - 180 \<le> lon (center (dragMove m ds cx cy))
   \<and> lon (center (dragMove m ds cx cy)) \<le> 180
   \<and> zoom (dragMove m ds cx cy) = zoom m \<and> bearing (dragMove m ds cx cy) = bearing m
   \<and> \<bar>lat (center (applyZoomRotateAbout m ax ay nz nb a))\<bar> \<le> MAX_LATITUDE
   \<and> - 180 \<le> lon (center (applyZoomRotateAbout m ax ay nz nb a))
   \<and> lon (center (applyZoomRotateAbout m ax ay nz nb a)) \<le> 180
   \<and> - pi < bearing (applyZoomRotateAbout m ax ay nz nb a)
   \<and> bearing (applyZoomRotateAbout m ax ay nz nb a) \<le> pi
   \<and> (layerMinZoom m \<le> layerMaxZoom m \<longrightarrow>
        layerMinZoom m \<le> zoom (applyZoomRotateAbout m ax ay nz nb a)
        \<and> zoom (applyZoomRotateAbout m ax ay nz nb a) \<le> layerMaxZoom m)
   \<and> \<bar>lat (center (fst (flyTo_step m j t)))\<bar> \<le> MAX_LATITUDE
   \<and> - pi < bearing (fst (flyTo_step m j t))
   \<and> bearing (fst (flyTo_step m j t)) \<le> pi
   \<and> (fly_t j t \<ge> 1 \<longrightarrow>
        - 180 \<le> lon (center (fst (flyTo_step m j t)))
        \<and> lon (center (fst (flyTo_step m j t))) \<le> 180)
   \<and> (0 \<le> fly_p j t \<and> fly_p j t \<le> 1 \<longrightarrow>
        min (sZ j) (eZ j) \<le> zoom (fst (flyTo_step m j t))
        \<and> zoom (fst (flyTo_step m j t)) \<le> max (sZ j) (eZ j))
   \<and> (flyTo m opts now = (m0, j') \<and> layerMinZoom m \<le> layerMaxZoom m \<longrightarrow>
        sZ j' = zoom m \<and> layerMinZoom m \<le> eZ j' \<and> eZ j' \<le> layerMaxZoom m)"
proof -
  have n: "\<bar>lat (center (Atlas_new c z0 cw ch r))\<bar> \<le> MAX_LATITUDE"
    using Atlas_new_state(1,2)[of c z0 cw ch r] by linarith
  have d: "\<bar>lat (center (dragMove m ds cx cy))\<bar> \<le> MAX_LATITUDE"
    using dragMove_state(1,2)[of m ds cx cy] by linarith
  have ap: "\<bar>lat (center (applyZoomRotateAbout m ax ay nz nb a))\<bar> \<le> MAX_LATITUDE"
    using applyZoomRotateAbout_state(1,2)[of m ax ay nz nb a] by linarith
  have az: "layerMinZoom m \<le> layerMaxZoom m \<longrightarrow>
        layerMinZoom m \<le> zoom (applyZoomRotateAbout m ax ay nz nb a)
        \<and> zoom (applyZoomRotateAbout m ax ay nz nb a) \<le> layerMaxZoom m"
    unfolding applyZoomRotateAbout_state(7) by auto
  have f: "\<bar>lat (center (fst (flyTo_step m j t)))\<bar> \<le> MAX_LATITUDE"
    using flyTo_step_range(1,2)[of m j t] by linarith
  have fj: "flyTo m opts now = (m0, j') \<and> layerMinZoom m \<le> layerMaxZoom m \<longrightarrow>
        sZ j' = zoom m \<and> layerMinZoom m \<le> eZ j' \<and> eZ j' \<le> layerMaxZoom m"
    using flyTo_job(4) flyTo_target_zoom by blast
  have sz: "layerMinZoom m \<le> layerMaxZoom m \<longrightarrow>
        layerMinZoom m \<le> zoom (setZoom m z) \<and> zoom (setZoom m z) \<le> layerMaxZoom m"
    using setZoom_range by blast
  have sb: "- pi < bearing m \<and> bearing m \<le> pi \<longrightarrow>
        - pi < bearing (setBearing m rad) \<and> bearing (setBearing m rad) \<le> pi"
    using setBearing_range by blast
  have fl: "fly_t j t \<ge> 1 \<longrightarrow>
        - 180 \<le> lon (center (fst (flyTo_step m j t)))
        \<and> lon (center (fst (flyTo_step m j t))) \<le> 180"
    using flyTo_step_last_lon by blast
  have fz: "0 \<le> fly_p j t \<and> fly_p j t \<le> 1 \<longrightarrow>
        min (sZ j) (eZ j) \<le> zoom (fst (flyTo_step m j t))
        \<and> zoom (fst (flyTo_step m j t)) \<le> max (sZ j) (eZ j)"
    using flyTo_step_zoom by blast
  show ?thesis
    using n Atlas_new_state(3,4,5)[of c z0 cw ch r] setZoom_state(1,2)[of m z] sz
      setBearing_state[of m rad] sb d dragMove_state(3,4,5,6)[of m ds cx cy] ap
      applyZoomRotateAbout_state(3,4,5,6)[of m ax ay nz nb a] az
      f flyTo_step_range(3,4)[of m j t] fl fz fj
    apply -
    apply (intro conjI)
    apply assumption+
    done
qed


theorem viewport_ranges_witness:
  "layerMinZoom (Atlas_new \<lparr>lat = 0, lon = - 179\<rparr> 3 800 600 1) \<le> layerMaxZoom (Atlas_new \<lparr>lat = 0, lon = - 179\<rparr> 3 800 600 1)
   \<and> layerMinZoom (Atlas_new \<lparr>lat = 0, lon = - 179\<rparr> 3 800 600 1) \<le> zoom (setZoom (Atlas_new \<lparr>lat = 0, lon = - 179\<rparr> 3 800 600 1) 25)
   \<and> zoom (setZoom (Atlas_new \<lparr>lat = 0, lon = - 179\<rparr> 3 800 600 1) 25) \<le> layerMaxZoom (Atlas_new \<lparr>lat = 0, lon = - 179\<rparr> 3 800 600 1)
   \<and> - pi < bearing (Atlas_new \<lparr>lat = 0, lon = - 179\<rparr> 3 800 600 1) \<and> bearing (Atlas_new \<lparr>lat = 0, lon = - 179\<rparr> 3 800 600 1) \<le> pi
   \<and> - pi < bearing (setBearing (Atlas_new \<lparr>lat = 0, lon = - 179\<rparr> 3 800 600 1) 4)
   \<and> bearing (setBearing (Atlas_new \<lparr>lat = 0, lon = - 179\<rparr> 3 800 600 1) 4) \<le> pi
   \<and> zoom (applyZoomRotateAbout (Atlas_new \<lparr>lat = 0, lon = - 179\<rparr> 3 800 600 1) 400 300 20 4 None) \<le> layerMaxZoom (Atlas_new \<lparr>lat = 0, lon = - 179\<rparr> 3 800 600 1)
   \<and> - 180 \<le> lon (center (applyZoomRotateAbout (Atlas_new \<lparr>lat = 0, lon = - 179\<rparr> 3 800 600 1) 400 300 20 4 None))
   \<and> fly_t (snd (flyTo (Atlas_new \<lparr>lat = 0, lon = - 179\<rparr> 3 800 600 1)
        \<lparr>f_center = Some \<lparr>lat = 0, lon = 179\<rparr>, f_zoom = Some 5, f_bearing = None,
          f_duration = None, f_easing = Some (\<lambda>t. t)\<rparr> 0)) 800 \<ge> 1
   \<and> - 180 \<le> lon (center (fst (flyTo_step (fst (flyTo (Atlas_new \<lparr>lat = 0, lon = - 179\<rparr> 3 800 600 1)
        \<lparr>f_center = Some \<lparr>lat = 0, lon = 179\<rparr>, f_zoom = Some 5, f_bearing = None,
          f_duration = None, f_easing = Some (\<lambda>t. t)\<rparr> 0))
        (snd (flyTo (Atlas_new \<lparr>lat = 0, lon = - 179\<rparr> 3 800 600 1)
        \<lparr>f_center = Some \<lparr>lat = 0, lon = 179\<rparr>, f_zoom = Some 5, f_bearing = None,
          f_duration = None, f_easing = Some (\<lambda>t. t)\<rparr> 0)) 800)))
   \<and> lon (center (fst (flyTo_step (fst (flyTo (Atlas_new \<lparr>lat = 0, lon = - 179\<rparr> 3 800 600 1)
        \<lparr>f_center = Some \<lparr>lat = 0, lon = 179\<rparr>, f_zoom = Some 5, f_bearing = None,
          f_duration = None, f_easing = Some (\<lambda>t. t)\<rparr> 0))
        (snd (flyTo (Atlas_new \<lparr>lat = 0, lon = - 179\<rparr> 3 800 600 1)
        \<lparr>f_center = Some \<lparr>lat = 0, lon = 179\<rparr>, f_zoom = Some 5, f_bearing = None,
          f_duration = None, f_easing = Some (\<lambda>t. t)\<rparr> 0)) 800))) \<le> 180
   \<and> 0 \<le> fly_p (snd (flyTo (Atlas_new \<lparr>lat = 0, lon = - 179\<rparr> 3 800 600 1)
        \<lparr>f_center = Some \<lparr>lat = 0, lon = 179\<rparr>, f_zoom = Some 5, f_bearing = None,
          f_duration = None, f_easing = Some (\<lambda>t. t)\<rparr> 0)) 800
   \<and> fly_p (snd (flyTo (Atlas_new \<lparr>lat = 0, lon = - 179\<rparr> 3 800 600 1)
        \<lparr>f_center = Some \<lparr>lat = 0, lon = 179\<rparr>, f_zoom = Some 5, f_bearing = None,
          f_duration = None, f_easing = Some (\<lambda>t. t)\<rparr> 0)) 800 \<le> 1
   \<and> zoom (fst (flyTo_step (fst (flyTo (Atlas_new \<lparr>lat = 0, lon = - 179\<rparr> 3 800 600 1)
        \<lparr>f_center = Some \<lparr>lat = 0, lon = 179\<rparr>, f_zoom = Some 5, f_bearing = None,
          f_duration = None, f_easing = Some (\<lambda>t. t)\<rparr> 0))
        (snd (flyTo (Atlas_new \<lparr>lat = 0, lon = - 179\<rparr> 3 800 600 1)
        \<lparr>f_center = Some \<lparr>lat = 0, lon = 179\<rparr>, f_zoom = Some 5, f_bearing = None,
          f_duration = None, f_easing = Some (\<lambda>t. t)\<rparr> 0)) 800)) \<le> max (sZ (snd (flyTo (Atlas_new \<lparr>lat = 0, lon = - 179\<rparr> 3 800 600 1)
        \<lparr>f_center = Some \<lparr>lat = 0, lon = 179\<rparr>, f_zoom = Some 5, f_bearing = None,
          f_duration = None, f_easing = Some (\<lambda>t. t)\<rparr> 0))) (eZ (snd (flyTo (Atlas_new \<lparr>lat = 0, lon = - 179\<rparr> 3 800 600 1)
        \<lparr>f_center = Some \<lparr>lat = 0, lon = 179\<rparr>, f_zoom = Some 5, f_bearing = None,
          f_duration = None, f_easing = Some (\<lambda>t. t)\<rparr> 0)))
   \<and> flyTo (Atlas_new \<lparr>lat = 0, lon = - 179\<rparr> 3 800 600 1)
        \<lparr>f_center = Some \<lparr>lat = 0, lon = 179\<rparr>, f_zoom = Some 5, f_bearing = None,
          f_duration = None, f_easing = Some (\<lambda>t. t)\<rparr> 0
     = (fst (flyTo (Atlas_new \<lparr>lat = 0, lon = - 179\<rparr> 3 800 600 1)
        \<lparr>f_center = Some \<lparr>lat = 0, lon = 179\<rparr>, f_zoom = Some 5, f_bearing = None,
          f_duration = None, f_easing = Some (\<lambda>t. t)\<rparr> 0),
        snd (flyTo (Atlas_new \<lparr>lat = 0, lon = - 179\<rparr> 3 800 600 1)
        \<lparr>f_center = Some \<lparr>lat = 0, lon = 179\<rparr>, f_zoom = Some 5, f_bearing = None,
          f_duration = None, f_easing = Some (\<lambda>t. t)\<rparr> 0))
   \<and> eZ (snd (flyTo (Atlas_new \<lparr>lat = 0, lon = - 179\<rparr> 3 800 600 1)
        \<lparr>f_center = Some \<lparr>lat = 0, lon = 179\<rparr>, f_zoom = Some 5, f_bearing = None,
          f_duration = None, f_easing = Some (\<lambda>t. t)\<rparr> 0)) \<le> layerMaxZoom (Atlas_new \<lparr>lat = 0, lon = - 179\<rparr> 3 800 600 1)"
proof -
  let ?M = "(Atlas_new \<lparr>lat = 0, lon = - 179\<rparr> 3 800 600 1)"
  let ?O = "\<lparr>f_center = Some \<lparr>lat = 0, lon = 179\<rparr>, f_zoom = Some 5, f_bearing = None,
          f_duration = None, f_easing = Some (\<lambda>t. t)\<rparr>"
  have h1: "layerMinZoom ?M \<le> layerMaxZoom ?M"
    by (simp add: Atlas_new_def layerMinZoom_def layerMaxZoom_def)
  have h2: "- pi < bearing ?M \<and> bearing ?M \<le> pi"
    by (simp add: Atlas_new_def)
  have d: "duration (snd (flyTo ?M ?O 0)) = 800" "startT (snd (flyTo ?M ?O 0)) = 0"
    by (simp_all add: flyTo_def Let_def split_beta num_or_def)
  have h3: "fly_t (snd (flyTo ?M ?O 0)) 800 \<ge> 1" by (simp add: fly_t_def d)
  have h4: "0 \<le> fly_p (snd (flyTo ?M ?O 0)) 800 \<and> fly_p (snd (flyTo ?M ?O 0)) 800 \<le> 1"
    using h3 by (simp add: fly_p_def Let_def)
  have h5: "flyTo ?M ?O 0 = (fst (flyTo ?M ?O 0), snd (flyTo ?M ?O 0))
            \<and> layerMinZoom ?M \<le> layerMaxZoom ?M"
    using h1 by simp
  note t = viewport_ranges[where m = ?M and z = 25 and rad = 4 and ax = 400 and ay = 300
      and nz = 20 and nb = 4 and a = None and j = "snd (flyTo ?M ?O 0)" and t = 800
      and opts = ?O and now = 0 and ?m0.0 = "fst (flyTo ?M ?O 0)" and j' = "snd (flyTo ?M ?O 0)"]
  have c1: "layerMinZoom ?M \<le> zoom (setZoom ?M 25) \<and> zoom (setZoom ?M 25) \<le> layerMaxZoom ?M"
    using t h1 by blast
  have c2: "- pi < bearing (setBearing ?M 4) \<and> bearing (setBearing ?M 4) \<le> pi"
    using t h2 by blast
  have c3: "zoom (applyZoomRotateAbout ?M 400 300 20 4 None) \<le> layerMaxZoom ?M
            \<and> - 180 \<le> lon (center (applyZoomRotateAbout ?M 400 300 20 4 None))"
    using t h1 by blast
  have c4: "- 180 \<le> lon (center (fst (flyTo_step ?M (snd (flyTo ?M ?O 0)) 800)))
            \<and> lon (center (fst (flyTo_step ?M (snd (flyTo ?M ?O 0)) 800))) \<le> 180"
    using t h3 by blast
  have c5: "zoom (fst (flyTo_step ?M (snd (flyTo ?M ?O 0)) 800))
              \<le> max (sZ (snd (flyTo ?M ?O 0))) (eZ (snd (flyTo ?M ?O 0)))"
    using t h4 by blast
  have c6: "eZ (snd (flyTo ?M ?O 0)) \<le> layerMaxZoom ?M"
    using t h5 by blast
  have same: "center (fst (flyTo_step (fst (flyTo ?M ?O 0)) (snd (flyTo ?M ?O 0)) 800))
                = center (fst (flyTo_step ?M (snd (flyTo ?M ?O 0)) 800))"
      "zoom (fst (flyTo_step (fst (flyTo ?M ?O 0)) (snd (flyTo ?M ?O 0)) 800))
                = zoom (fst (flyTo_step ?M (snd (flyTo ?M ?O 0)) 800))"
    by (simp_all add: flyTo_step_state)
  show ?thesis
    using h1 c1 h2 c2 c3 h3 c4 h4 c5 h5 c6 unfolding same
    apply -
    apply (intro conjI)
    apply (erule conjE | assumption)+
    done
qed

section \<open>Inertia\<close>

lemma hypot_nonneg: "0 \<le> hypot a b"
  by (simp add: hypot_def)


























section \<open>Tile URLs\<close>




lemma str_includes_nil [simp]: "str_includes s []"
  by (cases s) simp_all
















section \<open>Tile requests and failures\<close>

lemma loadTile_cached:
  "map_of (tileCache L) key = Some t \<Longrightarrow> loadTile L key url now = (Fulfilled t, L)"
  by (simp add: loadTile_def)

lemma loadTile_new:
  assumes "map_of (tileCache L) key = None"
  shows "fst (loadTile L key url now) = Awaiting (length (loads L))"
    and "loads (snd (loadTile L key url now)) = loads L @
           [\<lparr>l_key = key, l_url = url, l_src = url, l_inflight = True,
             l_aborted = False, l_timer = True, l_outcome = None\<rparr>]"
    and "map_of (tileCache (snd (loadTile L key url now))) key
           = Some \<lparr>img = length (loads L), loaded = False, loadedAt = now, lastUsed = now\<rparr>"
    and "loadingTiles (snd (loadTile L key url now)) = insert key (loadingTiles L)"
  using assms by (simp_all add: loadTile_def Let_def update_conv')

text \<open>
  C3, at a failing input.  With room for one tile, two tiles are requested and both are
  pending; the eviction pass deletes the older pending record from the cache but leaves
  its image loading and its key in \<open>loadingTiles\<close>; the next request for that key finds
  no record and starts a second load, so two loads of one key are under way at once.
\<close>

theorem evicted_pending_tile_is_loaded_twice:
  "map fst (tileCache (performEviction (snd (loadTile (snd (loadTile (TileLayer_new ''t/{z}/{x}/{y}'' 0 19 False 1) ''0/0/0'' ''t/0/0/0'' 1)) ''1/0/0'' ''t/1/0/0'' 2)))) = [''1/0/0'']
   \<and> ''0/0/0'' \<in> loadingTiles (performEviction (snd (loadTile (snd (loadTile (TileLayer_new ''t/{z}/{x}/{y}'' 0 19 False 1) ''0/0/0'' ''t/0/0/0'' 1)) ''1/0/0'' ''t/1/0/0'' 2)))
   \<and> length (inflight_loads (performEviction (snd (loadTile (snd (loadTile (TileLayer_new ''t/{z}/{x}/{y}'' 0 19 False 1) ''0/0/0'' ''t/0/0/0'' 1)) ''1/0/0'' ''t/1/0/0'' 2))) ''0/0/0'') = 1
   \<and> fst (loadTile (performEviction (snd (loadTile (snd (loadTile (TileLayer_new ''t/{z}/{x}/{y}'' 0 19 False 1) ''0/0/0'' ''t/0/0/0'' 1)) ''1/0/0'' ''t/1/0/0'' 2))) ''0/0/0'' ''t/0/0/0'' 3) = Awaiting 2
   \<and> length (inflight_loads (snd (loadTile (performEviction (snd (loadTile (snd (loadTile (TileLayer_new ''t/{z}/{x}/{y}'' 0 19 False 1) ''0/0/0'' ''t/0/0/0'' 1)) ''1/0/0'' ''t/1/0/0'' 2))) ''0/0/0'' ''t/0/0/0'' 3)) ''0/0/0'') = 2"
  by (simp add: loadTile_def performEviction_def TileLayer_new_def inflight_loads_def Let_def
      AList.delete_eq)

text \<open>
  C5, at a failing input.  On a layer without retina a failed load fires \<open>tileerror\<close>
  and rejects the promise, but the pending record stays in the cache, and the next
  request for the key gets that record back and loads nothing.  On a retina layer the
  failure of the suffixed URL points the image at the plain URL; when the plain URL
  fails as well, the handler tests the suffixed URL again and loads the plain URL once
  more, firing no event.
\<close>

theorem failed_tile_record_stays:
  "fired (img_onerror (CONFIG 1) (snd (loadTile (TileLayer_new ''t/{z}/{y}/{x}'' 0 19 False 400) ''3/1/2'' ''t/3/2/1'' 7)) 0) = [TileError ''3/1/2'' ''t/3/2/1'' LoadError]
   \<and> l_outcome (loads (img_onerror (CONFIG 1) (snd (loadTile (TileLayer_new ''t/{z}/{y}/{x}'' 0 19 False 400) ''3/1/2'' ''t/3/2/1'' 7)) 0) ! 0) = Some (Rejected LoadError)
   \<and> ''3/1/2'' \<notin> loadingTiles (img_onerror (CONFIG 1) (snd (loadTile (TileLayer_new ''t/{z}/{y}/{x}'' 0 19 False 400) ''3/1/2'' ''t/3/2/1'' 7)) 0)
   \<and> map_of (tileCache (img_onerror (CONFIG 1) (snd (loadTile (TileLayer_new ''t/{z}/{y}/{x}'' 0 19 False 400) ''3/1/2'' ''t/3/2/1'' 7)) 0)) ''3/1/2''
       = Some \<lparr>img = 0, loaded = False, loadedAt = 7, lastUsed = 7\<rparr>
   \<and> loadTile (img_onerror (CONFIG 1) (snd (loadTile (TileLayer_new ''t/{z}/{y}/{x}'' 0 19 False 400) ''3/1/2'' ''t/3/2/1'' 7)) 0) ''3/1/2'' ''t/3/2/1'' 8
       = (Fulfilled \<lparr>img = 0, loaded = False, loadedAt = 7, lastUsed = 7\<rparr>, (img_onerror (CONFIG 1) (snd (loadTile (TileLayer_new ''t/{z}/{y}/{x}'' 0 19 False 400) ''3/1/2'' ''t/3/2/1'' 7)) 0))
   \<and> l_src (loads (img_onerror (CONFIG 2) (snd (loadTile (TileLayer_new ''t/{z}/{x}/{y}.png'' 0 19 True 500) ''3/1/2'' ''t/3/1/2.png@2x'' 7)) 0) ! 0) = ''t/3/1/2.png''
   \<and> l_inflight (loads (img_onerror (CONFIG 2) (snd (loadTile (TileLayer_new ''t/{z}/{x}/{y}.png'' 0 19 True 500) ''3/1/2'' ''t/3/1/2.png@2x'' 7)) 0) ! 0)
   \<and> l_src (loads (img_onerror (CONFIG 2) (img_onerror (CONFIG 2) (snd (loadTile (TileLayer_new ''t/{z}/{x}/{y}.png'' 0 19 True 500) ''3/1/2'' ''t/3/1/2.png@2x'' 7)) 0) 0) ! 0) = ''t/3/1/2.png''
   \<and> l_inflight (loads (img_onerror (CONFIG 2) (img_onerror (CONFIG 2) (snd (loadTile (TileLayer_new ''t/{z}/{x}/{y}.png'' 0 19 True 500) ''3/1/2'' ''t/3/1/2.png@2x'' 7)) 0) 0) ! 0)
   \<and> \<not> l_timer (loads (img_onerror (CONFIG 2) (img_onerror (CONFIG 2) (snd (loadTile (TileLayer_new ''t/{z}/{x}/{y}.png'' 0 19 True 500) ''3/1/2'' ''t/3/1/2.png@2x'' 7)) 0) 0) ! 0)
   \<and> fired (img_onerror (CONFIG 2) (img_onerror (CONFIG 2) (snd (loadTile (TileLayer_new ''t/{z}/{x}/{y}.png'' 0 19 True 500) ''3/1/2'' ''t/3/1/2.png@2x'' 7)) 0) 0) = []"
  by (simp add: loadTile_def img_onerror_def TileLayer_new_def CONFIG_def Let_def)

section \<open>Anchored zoom and rotation\<close>

lemma scale_pos: "0 < (2::real) powr z"
  by simp

















section \<open>Anchored zoom and rotation: where the anchor moves\<close>






















lemma normalizeAngle_0: "normalizeAngle 0 = 0"
  by (simp add: normalizeAngle_def atan2_def)





end
